theory Spec2Isabelle
  imports Main "HOL-Library.AList"
begin

section \<open>JavaScript values\<close>

text \<open>
  The node receives and produces dynamically typed JavaScript values. A Number is given by
  the decimal text that the engine prints for it (\<open>1001\<close>, \<open>0.5\<close>, \<open>1e+21\<close>), which
  determines it; the negative zero, which is printed like zero, and the three non-finite
  Numbers are values of their own. A BigInt is an integer. A string is a list of one-byte
  code units. A symbol is given by its description, a function by its source text, a Date
  by its ISO-8601 text (\<open>None\<close> for an invalid Date), a Buffer by its bytes, an array by
  its elements. A plain object is the list of its own enumerable properties in the engine's
  enumeration order (the keys are pairwise distinct, the integer-like ones first); none of
  them is an accessor, and none named \<open>toJSON\<close> holds a function. \<open>JThrowing m\<close> is an
  object that \<open>JSON.stringify\<close> cannot serialize: an object without own properties whose
  \<open>toJSON\<close> method throws an Error with the message \<open>m\<close>, as an instance of
  \<open>class { toJSON() { throw new Error(m) } }\<close> is. A member that refers back to an array
  or object it is part of, and so closes a cycle, is written in the same way, \<open>m\<close> being
  the message of the TypeError that the engine raises on reaching it.
\<close>

datatype number = Num string | NegZero | NaN | Infinity | NegInfinity

datatype jsval =
    JUndefined
  | JNull
  | JBool bool
  | JNum number
  | JStr string
  | JBigInt int
  | JSymbol string
  | JFunction string
  | JDate "string option"
  | JBuffer "nat list"
  | JArray "jsval list"
  | JObject "(string \<times> jsval) list"
  | JThrowing string

text \<open>
  Whatever a \<open>throw\<close> can carry: an \<open>Error\<close> instance with its message (a \<open>TypeError\<close>
  raised by the engine and the errors of the driver are \<open>Error\<close> instances), the host's
  \<open>NodeOperationError\<close> (also an \<open>Error\<close> instance), or any other value.
  \<open>NodeOperationError m\<close> is the error that the host constructs from the text \<open>m\<close>; what
  the host makes of that text afterwards is its own business.
\<close>

datatype thrown = Error string | NodeOperationError string | NonError jsval

fun instanceof_Error :: "thrown \<Rightarrow> bool" where
  "instanceof_Error (Error m) = True"
| "instanceof_Error (NodeOperationError m) = True"
| "instanceof_Error (NonError v) = False"

fun message :: "thrown \<Rightarrow> string" where
  "message (Error m) = m"
| "message (NodeOperationError m) = m"
| "message (NonError v) = []"

fun typeof :: "jsval \<Rightarrow> string" where
  "typeof JUndefined = ''undefined''"
| "typeof JNull = ''object''"
| "typeof (JBool b) = ''boolean''"
| "typeof (JNum n) = ''number''"
| "typeof (JStr s) = ''string''"
| "typeof (JBigInt i) = ''bigint''"
| "typeof (JSymbol d) = ''symbol''"
| "typeof (JFunction src) = ''function''"
| "typeof (JDate d) = ''object''"
| "typeof (JBuffer bs) = ''object''"
| "typeof (JArray xs) = ''object''"
| "typeof (JObject kvs) = ''object''"
| "typeof (JThrowing m) = ''object''"

fun instanceof_Date :: "jsval \<Rightarrow> bool" where
  "instanceof_Date (JDate d) = True"
| "instanceof_Date v = False"

fun instanceof_Buffer :: "jsval \<Rightarrow> bool" where
  "instanceof_Buffer (JBuffer bs) = True"
| "instanceof_Buffer v = False"

fun Array_isArray :: "jsval \<Rightarrow> bool" where
  "Array_isArray (JArray xs) = True"
| "Array_isArray v = False"

text \<open>
  ToBoolean: the falsy values are undefined, null, false, the two zeros, NaN, the empty
  string and 0n.
\<close>

fun truthy :: "jsval \<Rightarrow> bool" where
  "truthy JUndefined = False"
| "truthy JNull = False"
| "truthy (JBool b) = b"
| "truthy (JNum n) = (n \<noteq> Num ''0'' \<and> n \<noteq> NegZero \<and> n \<noteq> NaN)"
| "truthy (JStr s) = (s \<noteq> [])"
| "truthy (JBigInt i) = (i \<noteq> 0)"
| "truthy v = True"

text \<open>The operator \<open>a ?? b\<close>: \<open>b\<close> only when \<open>a\<close> is null or undefined.\<close>

definition nullish :: "jsval \<Rightarrow> jsval \<Rightarrow> jsval" where
  "nullish a b = (if a = JNull \<or> a = JUndefined then b else a)"

text \<open>The operator \<open>a || b\<close>.\<close>

definition or_else :: "jsval \<Rightarrow> jsval \<Rightarrow> jsval" where
  "or_else a b = (if truthy a then a else b)"

text \<open>
  What a plain object inherits from \<open>Object.prototype\<close>: the native methods, which are
  functions with the source text that the engine gives them, and \<open>__proto__\<close>, which reads
  as the prototype itself, an object without enumerable properties.
\<close>

definition native :: "string \<Rightarrow> jsval" where
  "native name = JFunction (''function '' @ name @ ''() { [native code] }'')"

definition Object_prototype :: "(string \<times> jsval) list" where
  "Object_prototype =
     [(''constructor'', native ''Object''),
      (''__defineGetter__'', native ''__defineGetter__''),
      (''__defineSetter__'', native ''__defineSetter__''),
      (''hasOwnProperty'', native ''hasOwnProperty''),
      (''__lookupGetter__'', native ''__lookupGetter__''),
      (''__lookupSetter__'', native ''__lookupSetter__''),
      (''isPrototypeOf'', native ''isPrototypeOf''),
      (''propertyIsEnumerable'', native ''propertyIsEnumerable''),
      (''toString'', native ''toString''),
      (''valueOf'', native ''valueOf''),
      (''__proto__'', JObject []),
      (''toLocaleString'', native ''toLocaleString'')]"

text \<open>
  Reading a property \<open>obj[k]\<close> of a plain object: its own property of that name, else the
  one it inherits, else undefined.
\<close>

definition obj_get :: "(string \<times> jsval) list \<Rightarrow> string \<Rightarrow> jsval" where
  "obj_get obj k =
     (case map_of obj k of
        Some v \<Rightarrow> v
      | None \<Rightarrow> (case map_of Object_prototype k of Some v \<Rightarrow> v | None \<Rightarrow> JUndefined))"

text \<open>
  The assignment \<open>obj[k] = v\<close> on a plain object: the property is replaced where it
  stands, or added last. The name \<open>__proto__\<close> reaches the inherited setter instead, which
  gives the object no property.
\<close>

definition obj_set :: "string \<Rightarrow> jsval \<Rightarrow> (string \<times> jsval) list \<Rightarrow> (string \<times> jsval) list" where
  "obj_set k v obj = (if k = ''__proto__'' then obj else AList.update k v obj)"

section \<open>Text: decimal numerals, join, split, trim\<close>

definition digit_char :: "nat \<Rightarrow> char" where
  "digit_char d = ''0123456789abcdef'' ! (d mod 16)"

fun show_nat :: "nat \<Rightarrow> string" where
  "show_nat n = (if n < 10 then [digit_char n] else show_nat (n div 10) @ [digit_char (n mod 10)])"

declare show_nat.simps [simp del]

definition show_int :: "int \<Rightarrow> string" where
  "show_int i = (if i < 0 then CHR ''-'' # show_nat (nat (- i)) else show_nat (nat i))"

text \<open>The text of a Number, as a template literal and \<open>String\<close> give it.\<close>

fun Number_toString :: "number \<Rightarrow> string" where
  "Number_toString (Num s) = s"
| "Number_toString NegZero = ''0''"
| "Number_toString NaN = ''NaN''"
| "Number_toString Infinity = ''Infinity''"
| "Number_toString NegInfinity = ''-Infinity''"

text \<open>\<open>Array.prototype.join\<close> on an array of strings.\<close>

fun join :: "string \<Rightarrow> string list \<Rightarrow> string" where
  "join sep [] = []"
| "join sep [x] = x"
| "join sep (x # y # ys) = x @ sep @ join sep (y # ys)"

text \<open>
  \<open>columns.split(',')\<close>: the pieces between the commas; the empty string gives one
  empty piece. The accumulator holds the piece being read.
\<close>

fun split_from :: "char \<Rightarrow> string \<Rightarrow> string \<Rightarrow> string list" where
  "split_from sep acc [] = [acc]"
| "split_from sep acc (c # cs) =
     (if c = sep then acc # split_from sep [] cs else split_from sep (acc @ [c]) cs)"

definition split :: "char \<Rightarrow> string \<Rightarrow> string list" where
  "split sep s = split_from sep [] s"

text \<open>
  \<open>String.prototype.trim\<close> removes white space and line terminators at both ends; among
  the one-byte code units these are TAB, LF, VT, FF, CR, SPACE and NBSP.
\<close>

definition is_space :: "char \<Rightarrow> bool" where
  "is_space c = (c \<in> set [CHR 0x09, CHR 0x0A, CHR 0x0B, CHR 0x0C, CHR 0x0D, CHR 0x20, CHR 0xA0])"

definition trim :: "string \<Rightarrow> string" where
  "trim s = rev (dropWhile is_space (rev (dropWhile is_space s)))"

section \<open>JSON.stringify\<close>

text \<open>
  QuoteJSONString of ECMA-262: the two-character escapes, \<open>\u00xx\<close> for the other control
  characters, every other code unit as it is.
\<close>

definition hex4 :: "nat \<Rightarrow> string" where
  "hex4 n = [digit_char (n div 4096), digit_char (n div 256), digit_char (n div 16), digit_char n]"

definition quote_char :: "char \<Rightarrow> string" where
  "quote_char c =
     (if c = CHR 0x08 then [CHR 0x5C, CHR ''b'']
      else if c = CHR 0x09 then [CHR 0x5C, CHR ''t'']
      else if c = CHR 0x0A then [CHR 0x5C, CHR ''n'']
      else if c = CHR 0x0C then [CHR 0x5C, CHR ''f'']
      else if c = CHR 0x0D then [CHR 0x5C, CHR ''r'']
      else if c = CHR 0x22 then [CHR 0x5C, CHR 0x22]
      else if c = CHR 0x5C then [CHR 0x5C, CHR 0x5C]
      else if (of_char c :: nat) < 32 then [CHR 0x5C, CHR ''u''] @ hex4 (of_char c)
      else [c])"

definition Quote :: "string \<Rightarrow> string" where
  "Quote s = CHR 0x22 # concat (map quote_char s) @ [CHR 0x22]"

text \<open>
  SerializeJSONProperty of ECMA-262, in the engine as the node finds it: \<open>None\<close> stands
  for the result undefined (the property is left out of an object and written \<open>null\<close> in
  an array). A value with a \<open>toJSON\<close> method is serialized through it: a Date gives its ISO
  text, a Buffer its bytes, and a BigInt its decimal text, by the method that the module
  \<open>n8n-workflow\<close>, which the node imports, adds to \<open>BigInt.prototype\<close>; what the method
  of a \<open>JThrowing\<close> object throws ends the serialization.
\<close>

fun SerializeJSONProperty :: "jsval \<Rightarrow> thrown + string option"
  and SerializeJSONArray :: "jsval list \<Rightarrow> thrown + string list"
  and SerializeJSONObject :: "(string \<times> jsval) list \<Rightarrow> thrown + string list" where
  "SerializeJSONProperty JUndefined = Inr None"
| "SerializeJSONProperty JNull = Inr (Some ''null'')"
| "SerializeJSONProperty (JBool b) = Inr (Some (if b then ''true'' else ''false''))"
| "SerializeJSONProperty (JNum n) =
     Inr (Some (case n of Num s \<Rightarrow> s | NegZero \<Rightarrow> ''0'' | _ \<Rightarrow> ''null''))"
| "SerializeJSONProperty (JStr s) = Inr (Some (Quote s))"
| "SerializeJSONProperty (JBigInt i) = Inr (Some (Quote (show_int i)))"
| "SerializeJSONProperty (JSymbol d) = Inr None"
| "SerializeJSONProperty (JFunction src) = Inr None"
| "SerializeJSONProperty (JDate d) =
     Inr (Some (case d of None \<Rightarrow> ''null'' | Some txt \<Rightarrow> Quote txt))"
| "SerializeJSONProperty (JBuffer bs) =
     Inr (Some (''{'' @ Quote ''type'' @ '':'' @ Quote ''Buffer'' @ '','' @ Quote ''data'' @ '':[''
                @ join '','' (map show_nat bs) @ '']}''))"
| "SerializeJSONProperty (JThrowing m) = Inl (Error m)"
| "SerializeJSONProperty (JArray xs) =
     (case SerializeJSONArray xs of
        Inl e \<Rightarrow> Inl e
      | Inr parts \<Rightarrow> Inr (Some (''['' @ join '','' parts @ '']'')))"
| "SerializeJSONProperty (JObject kvs) =
     (case SerializeJSONObject kvs of
        Inl e \<Rightarrow> Inl e
      | Inr parts \<Rightarrow> Inr (Some (''{'' @ join '','' parts @ ''}'')))"
| "SerializeJSONArray [] = Inr []"
| "SerializeJSONArray (x # xs) =
     (case SerializeJSONProperty x of
        Inl e \<Rightarrow> Inl e
      | Inr r \<Rightarrow>
          (case SerializeJSONArray xs of
             Inl e \<Rightarrow> Inl e
           | Inr parts \<Rightarrow> Inr ((case r of None \<Rightarrow> ''null'' | Some s \<Rightarrow> s) # parts)))"
| "SerializeJSONObject [] = Inr []"
| "SerializeJSONObject ((k, v) # kvs) =
     (case SerializeJSONProperty v of
        Inl e \<Rightarrow> Inl e
      | Inr r \<Rightarrow>
          (case SerializeJSONObject kvs of
             Inl e \<Rightarrow> Inl e
           | Inr parts \<Rightarrow>
               Inr (case r of None \<Rightarrow> parts | Some s \<Rightarrow> (Quote k @ '':'' @ s) # parts)))"

text \<open>\<open>JSON.stringify(value)\<close> returns a string or undefined, or throws.\<close>

definition JSON_stringify :: "jsval \<Rightarrow> thrown + jsval" where
  "JSON_stringify v =
     (case SerializeJSONProperty v of
        Inl e \<Rightarrow> Inl e
      | Inr None \<Rightarrow> Inr JUndefined
      | Inr (Some s) \<Rightarrow> Inr (JStr s))"

section \<open>String(value)\<close>

text \<open>
  \<open>String(value)\<close> for a primitive value and for a function, which are the values that
  the node applies it to.
\<close>

fun String_js :: "jsval \<Rightarrow> string" where
  "String_js JUndefined = ''undefined''"
| "String_js JNull = ''null''"
| "String_js (JBool b) = (if b then ''true'' else ''false'')"
| "String_js (JNum n) = Number_toString n"
| "String_js (JStr s) = s"
| "String_js (JBigInt i) = show_int i"
| "String_js (JSymbol d) = ''Symbol('' @ d @ '')''"
| "String_js (JFunction src) = src"

section \<open>The value normalizer\<close>

text \<open>
  \<open>JSON.stringify\<close> and \<open>JSON.parse\<close> are functions of the engine, and the modules that
  are loaded decide what they do for some values. The node is therefore described for any two
  such functions, \<open>stringify\<close> and \<open>parse\<close>, each returning a value or throwing;
  \<open>JSON_stringify\<close> above is the first of them in the engine as the node finds it.

  \<open>convertToOracleType\<close>, branch by branch as in the source.
\<close>

definition convertToOracleType :: "(jsval \<Rightarrow> thrown + jsval) \<Rightarrow> jsval \<Rightarrow> thrown + jsval" where
  "convertToOracleType stringify value =
     (if value = JNull \<or> value = JUndefined then Inr JNull
      else if typeof value = ''boolean'' then
        Inr (if truthy value then JNum (Num ''1'') else JNum (Num ''0''))
      else if instanceof_Date value then Inr value
      else if instanceof_Buffer value then Inr value
      else if typeof value = ''object'' then stringify value
      else if typeof value = ''string'' \<or> typeof value = ''number'' then Inr value
      else Inr (JStr (String_js value)))"

section \<open>Host and driver\<close>

type_synonym obj = "(string \<times> jsval) list"

text \<open>
  \<open>Object.entries\<close>: the own enumerable properties; index properties for an array, a
  string and a Buffer; none for the other values; a TypeError for null and undefined.
\<close>

fun Object_entries :: "jsval \<Rightarrow> thrown + obj" where
  "Object_entries JUndefined = Inl (Error ''Cannot convert undefined or null to object'')"
| "Object_entries JNull = Inl (Error ''Cannot convert undefined or null to object'')"
| "Object_entries (JObject kvs) = Inr kvs"
| "Object_entries (JArray xs) = Inr (zip (map show_nat [0..<length xs]) xs)"
| "Object_entries (JStr s) = Inr (zip (map show_nat [0..<length s]) (map (\<lambda>c. JStr [c]) s))"
| "Object_entries (JBuffer bs) =
     Inr (zip (map show_nat [0..<length bs]) (map (\<lambda>b. JNum (Num (show_nat b))) bs))"
| "Object_entries v = Inr []"

text \<open>The credential fields, typed as the credential descriptor declares them.\<close>

record credentials =
  user :: string
  password :: string
  connectionString :: string
  host :: string
  port :: number
  serviceName :: string

record connectionAttributes =
  ca_user :: string
  ca_password :: string
  connectString :: string

text \<open>What \<open>connection.execute\<close> resolves to.\<close>

record db_result =
  rows :: jsval
  rowsAffected :: jsval
  outBinds :: jsval

text \<open>
  The native driver, as far as the node uses it. The connection \<open>'c\<close> carries whatever
  state the database has; \<open>connection_execute\<close> takes the SQL text, the bind object and
  the options object, and returns the changed connection with the result or the rejection.
\<close>

record 'c oracledb =
  initOracleClient :: "thrown option"
  getConnection :: "connectionAttributes \<Rightarrow> thrown + 'c"
  connection_execute :: "'c \<Rightarrow> string \<Rightarrow> obj \<Rightarrow> obj \<Rightarrow> (thrown + db_result) \<times> 'c"
  connection_close :: "'c \<Rightarrow> thrown option"

text \<open>\<open>oracledb.OUT_FORMAT_OBJECT\<close>, a constant of the driver.\<close>

definition OUT_FORMAT_OBJECT :: jsval where
  "OUT_FORMAT_OBJECT = JNum (Num ''4002'')"

text \<open>
  The host (\<open>this\<close> in \<open>execute\<close>). The parameters that the node description declares of
  type string resolve to strings, the \<open>json\<close> parameters to any value, the \<open>options\<close>
  collection to an object; the last argument of the latter two is the fallback value. Each
  resolution may throw. An input item is given by its \<open>json\<close> object.
\<close>

record IExecuteFunctions =
  getInputData :: "obj list"
  getCredentials :: "thrown + credentials"
  getNodeParameter_string :: "string \<Rightarrow> nat \<Rightarrow> thrown + string"
  getNodeParameter_json :: "string \<Rightarrow> nat \<Rightarrow> jsval \<Rightarrow> thrown + jsval"
  getNodeParameter_object :: "string \<Rightarrow> nat \<Rightarrow> obj \<Rightarrow> thrown + obj"
  continueOnFail :: bool

text \<open>What the run of \<open>execute\<close> does to the outside, in order.\<close>

datatype event =
    InitOracleClient
  | ConsoleLog string
  | GetConnection connectionAttributes
  | Execute nat string obj obj
  | Close
  | ConsoleError thrown

text \<open>Sequencing of steps that may throw.\<close>

definition try_bind :: "thrown + 'a \<Rightarrow> ('a \<Rightarrow> thrown + 'b) \<Rightarrow> thrown + 'b" where
  "try_bind x f = (case x of Inl e \<Rightarrow> Inl e | Inr v \<Rightarrow> f v)"

section \<open>Building the statements\<close>

type_synonym request = "string \<times> obj \<times> obj"

text \<open>The loop \<open>for (const [key, value] of Object.entries(queryParams)) binds[key] = ...\<close>.\<close>

fun bind_entries :: "(jsval \<Rightarrow> thrown + jsval) \<Rightarrow> obj \<Rightarrow> obj \<Rightarrow> thrown + obj" where
  "bind_entries stringify [] binds = Inr binds"
| "bind_entries stringify ((key, value) # es) binds =
     (case convertToOracleType stringify value of
        Inl e \<Rightarrow> Inl e
      | Inr v \<Rightarrow> bind_entries stringify es (obj_set key v binds))"

text \<open>
  A \<open>json\<close> parameter that arrives as text is parsed; \<open>what\<close> is the message of the error
  raised when \<open>JSON.parse\<close> throws.
\<close>

definition parse_params :: "(string \<Rightarrow> thrown + jsval) \<Rightarrow> string \<Rightarrow> jsval \<Rightarrow> thrown + jsval" where
  "parse_params parse what params =
     (if typeof params = ''string'' then
        (case parse (String_js params) of Inl e \<Rightarrow> Inl (Error what) | Inr v \<Rightarrow> Inr v)
      else Inr params)"

definition build_executeQuery ::
  "(jsval \<Rightarrow> thrown + jsval) \<Rightarrow> (string \<Rightarrow> thrown + jsval) \<Rightarrow> IExecuteFunctions \<Rightarrow> obj \<Rightarrow> nat
     \<Rightarrow> thrown + request" where
  "build_executeQuery stringify parse this options i =
     try_bind (getNodeParameter_string this ''query'' i) (\<lambda>query.
     try_bind (getNodeParameter_json this ''queryParams'' i (JObject [])) (\<lambda>queryParams.
     try_bind (parse_params parse ''Invalid JSON in Query Parameters'' queryParams) (\<lambda>queryParams.
     try_bind (Object_entries queryParams) (\<lambda>entries.
     try_bind (bind_entries stringify entries []) (\<lambda>binds.
       Inr (query, binds,
            [(''autoCommit'', nullish (obj_get options ''autoCommit'') (JBool True)),
             (''fetchArraySize'', nullish (obj_get options ''fetchSize'') (JNum (Num ''100''))),
             (''maxRows'', nullish (obj_get options ''maxRows'') (JNum (Num ''0''))),
             (''outFormat'', OUT_FORMAT_OBJECT)]))))))"

text \<open>
  \<open>columnList.forEach((col, idx) => ...)\<close>: \<open>json\<close> is \<open>items[i].json\<close>, and \<open>binds\<close> and
  \<open>values\<close> are the two variables the callback updates.
\<close>

fun insert_forEach ::
  "(jsval \<Rightarrow> thrown + jsval) \<Rightarrow> obj \<Rightarrow> string list \<Rightarrow> nat \<Rightarrow> obj \<Rightarrow> string list
     \<Rightarrow> thrown + obj \<times> string list" where
  "insert_forEach stringify json [] idx binds values = Inr (binds, values)"
| "insert_forEach stringify json (col # cols) idx binds values =
     (let value = obj_get json col;
          paramName = ''val'' @ show_nat (idx + 1)
      in case convertToOracleType stringify value of
           Inl e \<Rightarrow> Inl e
         | Inr v \<Rightarrow>
             insert_forEach stringify json cols (idx + 1) (obj_set paramName v binds)
               (values @ ['':'' @ paramName]))"

definition build_insert ::
  "(jsval \<Rightarrow> thrown + jsval) \<Rightarrow> IExecuteFunctions \<Rightarrow> obj \<Rightarrow> nat \<Rightarrow> thrown + request" where
  "build_insert stringify this options i =
     try_bind (getNodeParameter_string this ''table'' i) (\<lambda>table.
     try_bind (getNodeParameter_string this ''columns'' i) (\<lambda>columns.
       let columnList = map trim (split CHR '','' columns)
       in try_bind (insert_forEach stringify (getInputData this ! i) columnList 0 [] [])
            (\<lambda>(binds, values).
            Inr (''INSERT INTO '' @ table @ '' ('' @ join '','' columnList @ '') VALUES (''
                   @ join '','' values @ '')'',
                 binds,
                 [(''autoCommit'', nullish (obj_get options ''autoCommit'') (JBool True))]))))"

text \<open>
  The loop that builds the SET clause: \<open>updates\<close>, \<open>binds\<close> and \<open>paramIndex\<close> are the
  variables it updates.
\<close>

fun update_loop ::
  "(jsval \<Rightarrow> thrown + jsval) \<Rightarrow> string \<Rightarrow> obj \<Rightarrow> obj \<Rightarrow> string list \<Rightarrow> nat
     \<Rightarrow> thrown + obj \<times> string list \<times> nat" where
  "update_loop stringify updateKey [] binds updates paramIndex = Inr (binds, updates, paramIndex)"
| "update_loop stringify updateKey ((key, value) # es) binds updates paramIndex =
     (if key \<noteq> updateKey then
        (case convertToOracleType stringify value of
           Inl e \<Rightarrow> Inl e
         | Inr v \<Rightarrow>
             update_loop stringify updateKey es
               (obj_set (''val'' @ show_nat paramIndex) v binds)
               (updates @ [key @ '' = :val'' @ show_nat paramIndex])
               (paramIndex + 1))
      else update_loop stringify updateKey es binds updates paramIndex)"

definition build_update ::
  "(jsval \<Rightarrow> thrown + jsval) \<Rightarrow> IExecuteFunctions \<Rightarrow> obj \<Rightarrow> nat \<Rightarrow> thrown + request" where
  "build_update stringify this options i =
     try_bind (getNodeParameter_string this ''table'' i) (\<lambda>table.
     try_bind (getNodeParameter_string this ''updateKey'' i) (\<lambda>updateKey.
       let itemData = getInputData this ! i;
           updateKeyValue = obj_get itemData updateKey
       in try_bind (update_loop stringify updateKey itemData [] [] 1)
            (\<lambda>(binds, updates, paramIndex).
          try_bind (convertToOracleType stringify updateKeyValue) (\<lambda>k.
            Inr (''UPDATE '' @ table @ '' SET '' @ join '', '' updates @ '' WHERE '' @ updateKey
                   @ '' = :key'' @ show_nat paramIndex,
                 obj_set (''key'' @ show_nat paramIndex) k binds,
                 [(''autoCommit'', nullish (obj_get options ''autoCommit'') (JBool True))])))))"

definition build_delete ::
  "(jsval \<Rightarrow> thrown + jsval) \<Rightarrow> IExecuteFunctions \<Rightarrow> obj \<Rightarrow> nat \<Rightarrow> thrown + request" where
  "build_delete stringify this options i =
     try_bind (getNodeParameter_string this ''table'' i) (\<lambda>table.
     try_bind (getNodeParameter_string this ''deleteKey'' i) (\<lambda>deleteKey.
       let deleteKeyValue = obj_get (getInputData this ! i) deleteKey
       in try_bind (convertToOracleType stringify deleteKeyValue) (\<lambda>v.
            Inr (''DELETE FROM '' @ table @ '' WHERE '' @ deleteKey @ '' = :deleteValue'',
                 [(''deleteValue'', v)],
                 [(''autoCommit'', nullish (obj_get options ''autoCommit'') (JBool True))]))))"

text \<open>The loop over the procedure parameters: \<open>binds\<close> and \<open>paramNames\<close> are its variables.\<close>

fun procedure_loop ::
  "(jsval \<Rightarrow> thrown + jsval) \<Rightarrow> obj \<Rightarrow> obj \<Rightarrow> string list \<Rightarrow> thrown + obj \<times> string list" where
  "procedure_loop stringify [] binds paramNames = Inr (binds, paramNames)"
| "procedure_loop stringify ((key, value) # es) binds paramNames =
     (case convertToOracleType stringify value of
        Inl e \<Rightarrow> Inl e
      | Inr v \<Rightarrow>
          procedure_loop stringify es (obj_set key v binds) (paramNames @ ['':'' @ key]))"

definition build_executeProcedure ::
  "(jsval \<Rightarrow> thrown + jsval) \<Rightarrow> (string \<Rightarrow> thrown + jsval) \<Rightarrow> IExecuteFunctions \<Rightarrow> obj \<Rightarrow> nat
     \<Rightarrow> thrown + request" where
  "build_executeProcedure stringify parse this options i =
     try_bind (getNodeParameter_string this ''procedure'' i) (\<lambda>procedure.
     try_bind (getNodeParameter_json this ''procedureParams'' i (JObject [])) (\<lambda>procedureParams.
     try_bind (parse_params parse ''Invalid JSON in Procedure Parameters'' procedureParams)
       (\<lambda>procedureParams.
     try_bind (Object_entries procedureParams) (\<lambda>entries.
     try_bind (procedure_loop stringify entries [] []) (\<lambda>(binds, paramNames).
       Inr (''BEGIN '' @ procedure @ ''('' @ join '', '' paramNames @ ''); END;'',
            binds,
            [(''autoCommit'', nullish (obj_get options ''autoCommit'') (JBool True))]))))))"

section \<open>Mapping the result\<close>

fun array_elems :: "jsval \<Rightarrow> jsval list" where
  "array_elems (JArray xs) = xs"
| "array_elems v = []"

definition summary :: "db_result \<Rightarrow> jsval list" where
  "summary result =
     [JObject [(''success'', JBool True),
               (''rowsAffected'', nullish (rowsAffected result) (JNum (Num ''0'')))]]"

definition result_executeQuery :: "db_result \<Rightarrow> jsval list" where
  "result_executeQuery result =
     (if truthy (rows result) \<and> Array_isArray (rows result) then array_elems (rows result)
      else summary result)"

definition result_executeProcedure :: "db_result \<Rightarrow> jsval list" where
  "result_executeProcedure result =
     [JObject [(''success'', JBool True),
               (''outBinds'', or_else (outBinds result) (JObject []))]]"

section \<open>The loop over the input records\<close>

text \<open>
  One statement: if building it threw, nothing is executed; otherwise it is executed once
  on the connection and the result is mapped to output records by \<open>k\<close>.
\<close>

definition run ::
  "'c oracledb \<Rightarrow> 'c \<Rightarrow> nat \<Rightarrow> thrown + request \<Rightarrow> (db_result \<Rightarrow> jsval list)
     \<Rightarrow> (thrown + jsval list) \<times> 'c \<times> event list" where
  "run oracledb connection i req k =
     (case req of
        Inl e \<Rightarrow> (Inl e, connection, [])
      | Inr (sql, binds, opts) \<Rightarrow>
          (case connection_execute oracledb connection sql binds opts of
             (Inl e, connection') \<Rightarrow> (Inl e, connection', [Execute i sql binds opts])
           | (Inr result, connection') \<Rightarrow>
               (Inr (k result), connection', [Execute i sql binds opts])))"

text \<open>
  The body of the inner \<open>try\<close> for record \<open>i\<close>: the records it pushes, or what it threw.
\<close>

definition processItem ::
  "(jsval \<Rightarrow> thrown + jsval) \<Rightarrow> (string \<Rightarrow> thrown + jsval) \<Rightarrow> IExecuteFunctions \<Rightarrow> 'c oracledb
     \<Rightarrow> string \<Rightarrow> obj \<Rightarrow> 'c \<Rightarrow> nat \<Rightarrow> (thrown + jsval list) \<times> 'c \<times> event list" where
  "processItem stringify parse this oracledb operation options connection i =
     (if operation = ''executeQuery'' then
        run oracledb connection i (build_executeQuery stringify parse this options i)
          result_executeQuery
      else if operation = ''insert'' then
        run oracledb connection i (build_insert stringify this options i) summary
      else if operation = ''update'' then
        run oracledb connection i (build_update stringify this options i) summary
      else if operation = ''delete'' then
        run oracledb connection i (build_delete stringify this options i) summary
      else if operation = ''executeProcedure'' then
        run oracledb connection i (build_executeProcedure stringify parse this options i)
          result_executeProcedure
      else (Inr [], connection, []))"

definition error_record :: "thrown \<Rightarrow> jsval" where
  "error_record error =
     JObject [(''error'',
               JStr (if instanceof_Error error then message error
                     else ''Unknown error occurred''))]"

text \<open>
  The \<open>for\<close> loop, over the indices \<open>0, ..., items.length - 1\<close> still to be processed;
  \<open>returnData\<close> is the output collected so far.
\<close>

fun processItems ::
  "(jsval \<Rightarrow> thrown + jsval) \<Rightarrow> (string \<Rightarrow> thrown + jsval) \<Rightarrow> IExecuteFunctions \<Rightarrow> 'c oracledb
     \<Rightarrow> string \<Rightarrow> obj \<Rightarrow> 'c \<Rightarrow> jsval list \<Rightarrow> nat list
     \<Rightarrow> (thrown + jsval list) \<times> 'c \<times> event list" where
  "processItems stringify parse this oracledb operation options connection returnData [] =
     (Inr returnData, connection, [])"
| "processItems stringify parse this oracledb operation options connection returnData (i # rest) =
     (case processItem stringify parse this oracledb operation options connection i of
        (Inr out, connection', ev) \<Rightarrow>
          (case processItems stringify parse this oracledb operation options connection'
                  (returnData @ out) rest of
             (r, connection'', ev') \<Rightarrow> (r, connection'', ev @ ev'))
      | (Inl error, connection', ev) \<Rightarrow>
          (if continueOnFail this then
             (case processItems stringify parse this oracledb operation options connection'
                     (returnData @ [error_record error]) rest of
                (r, connection'', ev') \<Rightarrow> (r, connection'', ev @ ev'))
           else (Inl error, connection', ev)))"

section \<open>execute\<close>

definition to_NodeOperationError :: "thrown \<Rightarrow> thrown" where
  "to_NodeOperationError error =
     (if instanceof_Error error then NodeOperationError (message error)
      else NodeOperationError ''An unknown error occurred'')"

definition connectionConfig :: "credentials \<Rightarrow> connectionAttributes" where
  "connectionConfig credentials =
     \<lparr>ca_user = user credentials, ca_password = password credentials,
      connectString =
        (if connectionString credentials \<noteq> [] then connectionString credentials
         else host credentials @ '':'' @ Number_toString (port credentials) @ ''/''
              @ serviceName credentials)\<rparr>"

definition init_events :: "'c oracledb \<Rightarrow> event list" where
  "init_events oracledb =
     InitOracleClient #
     (case initOracleClient oracledb of
        None \<Rightarrow> []
      | Some err \<Rightarrow>
          [ConsoleLog (''Oracle client initialization skipped: ''
             @ (if instanceof_Error err then message err else ''Unknown error''))])"

text \<open>The \<open>finally\<close> block, entered with an open connection.\<close>

definition close_events :: "'c oracledb \<Rightarrow> 'c \<Rightarrow> event list" where
  "close_events oracledb connection =
     Close # (case connection_close oracledb connection of
                None \<Rightarrow> []
              | Some error \<Rightarrow> [ConsoleError error])"

text \<open>
  \<open>execute\<close>: what it returns or throws, and the events in order. The credentials and the
  two parameters are resolved before the outer \<open>try\<close>, so a failure there is thrown as it
  is; the \<open>finally\<close> block closes the connection only if there is one.
\<close>

definition execute ::
  "(jsval \<Rightarrow> thrown + jsval) \<Rightarrow> (string \<Rightarrow> thrown + jsval) \<Rightarrow> IExecuteFunctions \<Rightarrow> 'c oracledb
     \<Rightarrow> (thrown + jsval list list) \<times> event list" where
  "execute stringify parse this oracledb =
     (let items = getInputData this in
      case getCredentials this of
        Inl e \<Rightarrow> (Inl e, [])
      | Inr credentials \<Rightarrow>
      (case getNodeParameter_string this ''operation'' 0 of
        Inl e \<Rightarrow> (Inl e, [])
      | Inr operation \<Rightarrow>
      (case getNodeParameter_object this ''options'' 0 [] of
        Inl e \<Rightarrow> (Inl e, [])
      | Inr options \<Rightarrow>
      (let config = connectionConfig credentials;
           ev0 = init_events oracledb @ [GetConnection config]
       in case getConnection oracledb config of
            Inl error \<Rightarrow> (Inl (to_NodeOperationError error), ev0)
          | Inr connection \<Rightarrow>
              (case processItems stringify parse this oracledb operation options connection []
                      [0..<length items] of
                 (Inl error, connection', ev) \<Rightarrow>
                   (Inl (to_NodeOperationError error),
                    ev0 @ ev @ close_events oracledb connection')
               | (Inr returnData, connection', ev) \<Rightarrow>
                   (Inr [returnData], ev0 @ ev @ close_events oracledb connection'))))))"

section \<open>Notions used in the statements\<close>

text \<open>
  The composite values: the values of type object other than null, a Date and a Buffer, which
  are the ones that reach the fifth branch of the normalizer.
\<close>

fun is_composite :: "jsval \<Rightarrow> bool" where
  "is_composite (JArray xs) = True"
| "is_composite (JObject kvs) = True"
| "is_composite (JThrowing m) = True"
| "is_composite v = False"

text \<open>
  \<open>traverse f xs\<close> applies \<open>f\<close> to the elements in order and stops at the first one
  that throws.
\<close>

fun traverse :: "('a \<Rightarrow> thrown + 'b) \<Rightarrow> 'a list \<Rightarrow> thrown + 'b list" where
  "traverse f [] = Inr []"
| "traverse f (x # xs) =
     (case f x of
        Inl e \<Rightarrow> Inl e
      | Inr y \<Rightarrow> (case traverse f xs of Inl e \<Rightarrow> Inl e | Inr ys \<Rightarrow> Inr (y # ys)))"



text \<open>The value of an option: the default when the option is absent, null or undefined.\<close>

definition option_value :: "obj \<Rightarrow> string \<Rightarrow> jsval \<Rightarrow> jsval" where
  "option_value options name d =
     (case map_of options name of
        None \<Rightarrow> d
      | Some v \<Rightarrow> (if v = JNull \<or> v = JUndefined then d else v))"

text \<open>
  The options object of an execution: the three options and the out-format for
  \<open>executeQuery\<close>, \<open>autoCommit\<close> alone otherwise.
\<close>

definition exec_options :: "string \<Rightarrow> obj \<Rightarrow> obj" where
  "exec_options operation options =
     (if operation = ''executeQuery'' then
        [(''autoCommit'', option_value options ''autoCommit'' (JBool True)),
         (''fetchArraySize'', option_value options ''fetchSize'' (JNum (Num ''100''))),
         (''maxRows'', option_value options ''maxRows'' (JNum (Num ''0''))),
         (''outFormat'', OUT_FORMAT_OBJECT)]
      else [(''autoCommit'', option_value options ''autoCommit'' (JBool True))])"

text \<open>The index of the input record for which a statement was executed.\<close>

fun executed_record :: "event \<Rightarrow> nat option" where
  "executed_record (Execute i sql binds opts) = Some i"
| "executed_record ev = None"

text \<open>
  What the body of the loop yields for each of the given records when all of them are
  processed in order, each on the connection as the previous one left it: the index of the
  record, the connection it found, the records pushed or the error thrown, and the events.
\<close>

type_synonym 'c outcome = "nat \<times> 'c \<times> (thrown + jsval list) \<times> event list"

fun outcomes ::
  "(jsval \<Rightarrow> thrown + jsval) \<Rightarrow> (string \<Rightarrow> thrown + jsval) \<Rightarrow> IExecuteFunctions \<Rightarrow> 'c oracledb
     \<Rightarrow> string \<Rightarrow> obj \<Rightarrow> 'c \<Rightarrow> nat list \<Rightarrow> 'c outcome list" where
  "outcomes stringify parse this oracledb operation options connection [] = []"
| "outcomes stringify parse this oracledb operation options connection (i # rest) =
     (case processItem stringify parse this oracledb operation options connection i of
        (r, connection', ev) \<Rightarrow>
          (i, connection, r, ev)
            # outcomes stringify parse this oracledb operation options connection' rest)"

fun outcome_result :: "'c outcome \<Rightarrow> thrown + jsval list" where
  "outcome_result (i, connection, r, ev) = r"

fun outcome_events :: "'c outcome \<Rightarrow> event list" where
  "outcome_events (i, connection, r, ev) = ev"

text \<open>
  What one record contributes to the output when failures are continued past: its own
  records, or one error record.
\<close>

fun emitted :: "thrown + jsval list \<Rightarrow> jsval list" where
  "emitted (Inl error) = [error_record error]"
| "emitted (Inr out) = out"

text \<open>The outcomes up to and including the first failure.\<close>

fun until_failure :: "'c outcome list \<Rightarrow> 'c outcome list" where
  "until_failure [] = []"
| "until_failure ((i, connection, Inr out, ev) # os) =
     (i, connection, Inr out, ev) # until_failure os"
| "until_failure ((i, connection, Inl error, ev) # os) = [(i, connection, Inl error, ev)]"

text \<open>The error of the first failure, if any.\<close>

fun first_failure :: "'c outcome list \<Rightarrow> thrown option" where
  "first_failure [] = None"
| "first_failure ((i, connection, Inr out, ev) # os) = first_failure os"
| "first_failure ((i, connection, Inl error, ev) # os) = Some error"

section \<open>A host and a driver to run the node on\<close>

text \<open>
  The parameters of the examples of the README: table \<open>employees\<close>, key
  \<open>employee_id\<close>, two columns.
\<close>

definition example_strings :: "string \<Rightarrow> string \<Rightarrow> nat \<Rightarrow> thrown + string" where
  "example_strings operation name i =
     (if name = ''operation'' then Inr operation
      else if name = ''query'' then Inr ''SELECT * FROM employees WHERE employee_id = :emp_id AND active = :active''
      else if name = ''table'' then Inr ''employees''
      else if name = ''columns'' then Inr ''employee_id, first_name''
      else if name = ''updateKey'' then Inr ''employee_id''
      else if name = ''deleteKey'' then Inr ''employee_id''
      else if name = ''procedure'' then Inr ''RAISE_SALARY''
      else Inl (Error ''Could not get parameter''))"

text \<open>The input record of the examples.\<close>

definition john :: obj where
  "john = [(''employee_id'', JNum (Num ''1001'')), (''first_name'', JStr ''John''),
           (''salary'', JNum (Num ''75000''))]"

text \<open>
  The host of the examples, with the given operation and input records: it continues past
  failures, and its options ask for a fetch size of 50 and at most 10 rows.
\<close>

definition example_host :: "string \<Rightarrow> obj list \<Rightarrow> IExecuteFunctions" where
  "example_host operation items =
     \<lparr>getInputData = items,
      getCredentials =
        Inr \<lparr>user = ''scott'', password = ''tiger'', connectionString = [],
             host = ''localhost'', port = Num ''1521'', serviceName = ''ORCL''\<rparr>,
      getNodeParameter_string = example_strings operation,
      getNodeParameter_json =
        (\<lambda>name i d. Inr (JObject [(''emp_id'', JNum (Num ''1001'')), (''active'', JBool True)])),
      getNodeParameter_object =
        (\<lambda>name i d. Inr [(''fetchSize'', JNum (Num ''50'')), (''maxRows'', JNum (Num ''10''))]),
      continueOnFail = True\<rparr>"



text \<open>
  A driver whose connection counts the statements executed on it: the second statement
  fails, a query returns two rows, a procedure call returns one output parameter, and
  closing fails.
\<close>

definition example_db :: "nat oracledb" where
  "example_db =
     \<lparr>initOracleClient = Some (Error ''NJS-077: already initialized''),
      getConnection = (\<lambda>config. Inr 0),
      connection_execute =
        (\<lambda>executed sql binds opts.
           (if executed = 1 then Inl (Error ''ORA-00001: unique constraint violated'')
            else Inr \<lparr>rows = (if take 6 sql = ''SELECT''
                                then JArray [JObject [(''ID'', JNum (Num ''1''))],
                                             JObject [(''ID'', JNum (Num ''2''))]]
                                else JUndefined),
                      rowsAffected = JNum (Num ''1''),
                      outBinds = (if take 5 sql = ''BEGIN''
                                  then JObject [(''total'', JNum (Num ''5''))] else JUndefined)\<rparr>,
            Suc executed)),
      connection_close = (\<lambda>executed. Some (Error ''NJS-003: invalid connection''))\<rparr>"

text \<open>The same driver when no connection can be made.\<close>

definition no_listener :: "nat oracledb" where
  "no_listener = example_db\<lparr>getConnection := (\<lambda>config. Inl (Error ''ORA-12541: TNS:no listener''))\<rparr>"

section \<open>The value normalizer: rules (C2), failure (C8) and round trip (C9)\<close>

lemma convert_composite: "is_composite v \<Longrightarrow> convertToOracleType stringify v = stringify v"
  by (cases v) (simp_all add: convertToOracleType_def)

lemma convert_not_composite: "\<not> is_composite v \<Longrightarrow> \<exists>r. convertToOracleType stringify v = Inr r"
  by (cases v) (simp_all add: convertToOracleType_def)

lemma is_composite_iff:
  "is_composite v =
     (typeof v = ''object'' \<and> v \<noteq> JNull \<and> \<not> instanceof_Date v \<and> \<not> instanceof_Buffer v)"
  by (cases v) simp_all

lemma Quote_simple: "Quote ''a'' = [CHR 0x22, CHR ''a'', CHR 0x22]"
  by (simp add: Quote_def quote_char_def)

text \<open>
  C2, as stated: every composite value is serialized to its JSON text. An array that holds
  an object whose \<open>toJSON\<close> method throws has no JSON text: serializing it throws, and so
  does the normalizer.
\<close>

theorem convertToOracleType_rules_counterexample:
  "convertToOracleType JSON_stringify (JArray [JStr ''a'', JThrowing ''boom'']) = Inl (Error ''boom'')"
  by (simp add: convertToOracleType_def JSON_stringify_def)

text \<open>
  C2, amended. The normalizer returns the result of the first rule that matches, in the order
  of the source: null and undefined give null; a boolean gives 1 or 0; a Date and a Buffer
  are returned as they are; any other value of type object is handed to \<open>JSON.stringify\<close>,
  and what that returns (the JSON text) is returned and what it throws is thrown; a string
  and a number are returned as they are; anything else (a BigInt, a symbol, a function)
  gives its text.
\<close>

theorem convertToOracleType_rules:
  "convertToOracleType stringify v =
     (case v of
        JUndefined \<Rightarrow> Inr JNull
      | JNull \<Rightarrow> Inr JNull
      | JBool b \<Rightarrow> Inr (JNum (Num (if b then ''1'' else ''0'')))
      | JDate d \<Rightarrow> Inr v
      | JBuffer bs \<Rightarrow> Inr v
      | JArray xs \<Rightarrow> stringify v
      | JObject kvs \<Rightarrow> stringify v
      | JThrowing m \<Rightarrow> stringify v
      | JStr s \<Rightarrow> Inr v
      | JNum n \<Rightarrow> Inr v
      | JBigInt i \<Rightarrow> Inr (JStr (show_int i))
      | JSymbol d \<Rightarrow> Inr (JStr (''Symbol('' @ d @ '')''))
      | JFunction src \<Rightarrow> Inr (JStr src))"
  by (cases v) (simp_all add: convertToOracleType_def)

theorem convertToOracleType_rules_witness:
  "convertToOracleType JSON_stringify (JBool True) = Inr (JNum (Num ''1''))
   \<and> convertToOracleType JSON_stringify (JBool False) = Inr (JNum (Num ''0''))
   \<and> convertToOracleType JSON_stringify (JArray [JNull, JBool True, JNum (Num ''0.5'')])
       = Inr (JStr ''[null,true,0.5]'')
   \<and> convertToOracleType JSON_stringify (JObject [(''a'', JArray []), (''b'', JUndefined)])
       = Inr (JStr [CHR ''{'', CHR 0x22, CHR ''a'', CHR 0x22, CHR '':'', CHR ''['', CHR '']'', CHR ''}''])
   \<and> convertToOracleType JSON_stringify (JBigInt (- 12)) = Inr (JStr ''-12'')"
  using convertToOracleType_rules [of JSON_stringify "JBool True"]
    convertToOracleType_rules [of JSON_stringify "JBool False"]
    convertToOracleType_rules [of JSON_stringify "JArray [JNull, JBool True, JNum (Num ''0.5'')]"]
    convertToOracleType_rules [of JSON_stringify "JObject [(''a'', JArray []), (''b'', JUndefined)]"]
    convertToOracleType_rules [of JSON_stringify "JBigInt (- 12)"]
  by (simp add: JSON_stringify_def Quote_simple show_int_def show_nat.simps digit_char_def)

text \<open>
  C8, as stated: the normalizer returns a value for every input. It does not: serializing
  an object that holds a value whose \<open>toJSON\<close> method throws raises that error, which the
  normalizer lets through.
\<close>

theorem convertToOracleType_raises_counterexample:
  "convertToOracleType JSON_stringify (JObject [(''owner'', JThrowing ''no owner'')])
     = Inl (Error ''no owner'')"
  by (simp add: convertToOracleType_def JSON_stringify_def)

text \<open>
  C8, amended. The normalizer is a total function that raises nothing of its own: it raises
  an error exactly when its input is a composite value (of type object, and not null, a Date
  or a Buffer) and \<open>JSON.stringify\<close> raises that error for it; for every other input it
  returns a value.
\<close>

theorem convertToOracleType_raises:
  "(convertToOracleType stringify v = Inl e) = (is_composite v \<and> stringify v = Inl e)"
proof (cases "is_composite v")
  case True
  then show ?thesis by (simp add: convert_composite)
next
  case False
  with convert_not_composite [of v stringify] show ?thesis by auto
qed

theorem convertToOracleType_raises_witness:
  "convertToOracleType JSON_stringify (JArray [JThrowing ''boom'']) = Inl (Error ''boom'')
   \<and> is_composite (JArray [JThrowing ''boom''])
   \<and> JSON_stringify (JArray [JThrowing ''boom'']) = Inl (Error ''boom'')
   \<and> convertToOracleType JSON_stringify (JObject [(''id'', JBigInt 1)])
       = Inr (JStr (''{'' @ Quote ''id'' @ '':'' @ Quote ''1'' @ ''}''))
   \<and> convertToOracleType JSON_stringify (JBigInt 1) = Inr (JStr ''1'')"
proof -
  have c: "is_composite (JArray [JThrowing ''boom''])" by simp
  have s: "JSON_stringify (JArray [JThrowing ''boom'']) = Inl (Error ''boom'')"
    by (simp add: JSON_stringify_def)
  from c s have "convertToOracleType JSON_stringify (JArray [JThrowing ''boom'']) = Inl (Error ''boom'')"
    unfolding convertToOracleType_raises by simp
  moreover have "convertToOracleType JSON_stringify (JObject [(''id'', JBigInt 1)])
       = Inr (JStr (''{'' @ Quote ''id'' @ '':'' @ Quote ''1'' @ ''}''))"
    by (simp add: convertToOracleType_def JSON_stringify_def show_int_def show_nat.simps
          digit_char_def)
  moreover have "convertToOracleType JSON_stringify (JBigInt 1) = Inr (JStr ''1'')"
    by (simp add: convertToOracleType_def show_int_def show_nat.simps digit_char_def)
  ultimately show ?thesis using c s by simp
qed




section \<open>Decimal numerals and the bind object\<close>












lemma option_reads:
  "nullish (obj_get options ''autoCommit'') d = option_value options ''autoCommit'' d"
  "nullish (obj_get options ''fetchSize'') d = option_value options ''fetchSize'' d"
  "nullish (obj_get options ''maxRows'') d = option_value options ''maxRows'' d"
  by (simp_all add: nullish_def obj_get_def option_value_def Object_prototype_def
        split: option.splits)

lemma key_not_val: "''key'' @ a \<noteq> ''val'' @ b"
  by simp

section \<open>Runs of the example\<close>

lemmas run_defs =
  execute_def example_host_def example_db_def example_strings_def john_def no_listener_def
  processItem_def run_def try_bind_def parse_params_def
  build_executeQuery_def build_insert_def build_update_def build_delete_def
  build_executeProcedure_def
  convertToOracleType_def obj_get_def obj_set_def Object_prototype_def nullish_def or_else_def
  result_executeQuery_def result_executeProcedure_def summary_def error_record_def
  to_NodeOperationError_def connectionConfig_def init_events_def close_events_def
  split_def trim_def is_space_def show_nat.simps show_int_def digit_char_def
  OUT_FORMAT_OBJECT_def Let_def

lemma example_credentials:
  "getCredentials (example_host operation items) =
     Inr \<lparr>user = ''scott'', password = ''tiger'', connectionString = [],
          host = ''localhost'', port = Num ''1521'', serviceName = ''ORCL''\<rparr>"
  "getCredentials ((example_host operation items)\<lparr>continueOnFail := b\<rparr>) =
     Inr \<lparr>user = ''scott'', password = ''tiger'', connectionString = [],
          host = ''localhost'', port = Num ''1521'', serviceName = ''ORCL''\<rparr>"
  by (simp_all add: example_host_def)

lemma example_operation:
  "getNodeParameter_string (example_host operation items) ''operation'' 0 = Inr operation"
  "getNodeParameter_string ((example_host operation items)\<lparr>continueOnFail := b\<rparr>) ''operation'' 0
     = Inr operation"
  by (simp_all add: example_host_def example_strings_def)

lemma example_options:
  "getNodeParameter_object (example_host operation items) ''options'' 0 [] =
     Inr [(''fetchSize'', JNum (Num ''50'')), (''maxRows'', JNum (Num ''10''))]"
  "getNodeParameter_object ((example_host operation items)\<lparr>continueOnFail := b\<rparr>) ''options'' 0 [] =
     Inr [(''fetchSize'', JNum (Num ''50'')), (''maxRows'', JNum (Num ''10''))]"
  by (simp_all add: example_host_def)

lemma example_connection: "getConnection example_db config = Inr 0"
  by (simp add: example_db_def)

lemma example_insert_run:
  "execute stringify parse (example_host ''insert'' [john, john, john]) example_db =
     (Inr [[JObject [(''success'', JBool True), (''rowsAffected'', JNum (Num ''1''))],
            JObject [(''error'', JStr ''ORA-00001: unique constraint violated'')],
            JObject [(''success'', JBool True), (''rowsAffected'', JNum (Num ''1''))]]],
      [InitOracleClient,
       ConsoleLog ''Oracle client initialization skipped: NJS-077: already initialized'',
       GetConnection \<lparr>ca_user = ''scott'', ca_password = ''tiger'',
                      connectString = ''localhost:1521/ORCL''\<rparr>,
       Execute 0 ''INSERT INTO employees (employee_id,first_name) VALUES (:val1,:val2)''
         [(''val1'', JNum (Num ''1001'')), (''val2'', JStr ''John'')] [(''autoCommit'', JBool True)],
       Execute 1 ''INSERT INTO employees (employee_id,first_name) VALUES (:val1,:val2)''
         [(''val1'', JNum (Num ''1001'')), (''val2'', JStr ''John'')] [(''autoCommit'', JBool True)],
       Execute 2 ''INSERT INTO employees (employee_id,first_name) VALUES (:val1,:val2)''
         [(''val1'', JNum (Num ''1001'')), (''val2'', JStr ''John'')] [(''autoCommit'', JBool True)],
       Close, ConsoleError (Error ''NJS-003: invalid connection'')])"
  by (simp add: run_defs upt_rec)

lemma example_query_run:
  "execute stringify parse (example_host ''executeQuery'' [john, john, john]) example_db =
     (Inr [[JObject [(''ID'', JNum (Num ''1''))], JObject [(''ID'', JNum (Num ''2''))],
            JObject [(''error'', JStr ''ORA-00001: unique constraint violated'')],
            JObject [(''ID'', JNum (Num ''1''))], JObject [(''ID'', JNum (Num ''2''))]]],
      [InitOracleClient,
       ConsoleLog ''Oracle client initialization skipped: NJS-077: already initialized'',
       GetConnection \<lparr>ca_user = ''scott'', ca_password = ''tiger'',
                      connectString = ''localhost:1521/ORCL''\<rparr>,
       Execute 0 ''SELECT * FROM employees WHERE employee_id = :emp_id AND active = :active''
         [(''emp_id'', JNum (Num ''1001'')), (''active'', JNum (Num ''1''))]
         [(''autoCommit'', JBool True), (''fetchArraySize'', JNum (Num ''50'')),
          (''maxRows'', JNum (Num ''10'')), (''outFormat'', JNum (Num ''4002''))],
       Execute 1 ''SELECT * FROM employees WHERE employee_id = :emp_id AND active = :active''
         [(''emp_id'', JNum (Num ''1001'')), (''active'', JNum (Num ''1''))]
         [(''autoCommit'', JBool True), (''fetchArraySize'', JNum (Num ''50'')),
          (''maxRows'', JNum (Num ''10'')), (''outFormat'', JNum (Num ''4002''))],
       Execute 2 ''SELECT * FROM employees WHERE employee_id = :emp_id AND active = :active''
         [(''emp_id'', JNum (Num ''1001'')), (''active'', JNum (Num ''1''))]
         [(''autoCommit'', JBool True), (''fetchArraySize'', JNum (Num ''50'')),
          (''maxRows'', JNum (Num ''10'')), (''outFormat'', JNum (Num ''4002''))],
       Close, ConsoleError (Error ''NJS-003: invalid connection'')])"
  by (simp add: run_defs upt_rec)

lemma example_abort_run:
  "execute stringify parse ((example_host ''insert'' [john, john, john])\<lparr>continueOnFail := False\<rparr>)
       example_db =
     (Inl (NodeOperationError ''ORA-00001: unique constraint violated''),
      [InitOracleClient,
       ConsoleLog ''Oracle client initialization skipped: NJS-077: already initialized'',
       GetConnection \<lparr>ca_user = ''scott'', ca_password = ''tiger'',
                      connectString = ''localhost:1521/ORCL''\<rparr>,
       Execute 0 ''INSERT INTO employees (employee_id,first_name) VALUES (:val1,:val2)''
         [(''val1'', JNum (Num ''1001'')), (''val2'', JStr ''John'')] [(''autoCommit'', JBool True)],
       Execute 1 ''INSERT INTO employees (employee_id,first_name) VALUES (:val1,:val2)''
         [(''val1'', JNum (Num ''1001'')), (''val2'', JStr ''John'')] [(''autoCommit'', JBool True)],
       Close, ConsoleError (Error ''NJS-003: invalid connection'')])"
  by (simp add: run_defs upt_rec)

lemma example_no_listener_run:
  "execute stringify parse (example_host ''insert'' [john]) no_listener =
     (Inl (NodeOperationError ''ORA-12541: TNS:no listener''),
      [InitOracleClient,
       ConsoleLog ''Oracle client initialization skipped: NJS-077: already initialized'',
       GetConnection \<lparr>ca_user = ''scott'', ca_password = ''tiger'',
                      connectString = ''localhost:1521/ORCL''\<rparr>])"
  by (simp add: run_defs upt_rec)

lemma example_merge_run:
  "execute stringify parse (example_host ''merge'' [john, john]) example_db =
     (Inr [[]],
      [InitOracleClient,
       ConsoleLog ''Oracle client initialization skipped: NJS-077: already initialized'',
       GetConnection \<lparr>ca_user = ''scott'', ca_password = ''tiger'',
                      connectString = ''localhost:1521/ORCL''\<rparr>,
       Close, ConsoleError (Error ''NJS-003: invalid connection'')])"
  by (simp add: run_defs upt_rec)

lemma example_merge_no_listener_run:
  "execute stringify parse (example_host ''merge'' [john, john]) no_listener =
     (Inl (NodeOperationError ''ORA-12541: TNS:no listener''),
      [InitOracleClient,
       ConsoleLog ''Oracle client initialization skipped: NJS-077: already initialized'',
       GetConnection \<lparr>ca_user = ''scott'', ca_password = ''tiger'',
                      connectString = ''localhost:1521/ORCL''\<rparr>])"
  by (simp add: run_defs upt_rec)


lemma example_insert_outcomes:
  "outcomes stringify parse ((example_host ''insert'' [john, john, john])\<lparr>continueOnFail := b\<rparr>)
     example_db ''insert'' [(''fetchSize'', JNum (Num ''50'')), (''maxRows'', JNum (Num ''10''))] 0
     [0, 1, 2] =
   [(0, 0, Inr [JObject [(''success'', JBool True), (''rowsAffected'', JNum (Num ''1''))]],
     [Execute 0 ''INSERT INTO employees (employee_id,first_name) VALUES (:val1,:val2)''
        [(''val1'', JNum (Num ''1001'')), (''val2'', JStr ''John'')] [(''autoCommit'', JBool True)]]),
    (1, 1, Inl (Error ''ORA-00001: unique constraint violated''),
     [Execute 1 ''INSERT INTO employees (employee_id,first_name) VALUES (:val1,:val2)''
        [(''val1'', JNum (Num ''1001'')), (''val2'', JStr ''John'')] [(''autoCommit'', JBool True)]]),
    (2, 2, Inr [JObject [(''success'', JBool True), (''rowsAffected'', JNum (Num ''1''))]],
     [Execute 2 ''INSERT INTO employees (employee_id,first_name) VALUES (:val1,:val2)''
        [(''val1'', JNum (Num ''1001'')), (''val2'', JStr ''John'')] [(''autoCommit'', JBool True)]])]"
  by (simp add: run_defs)

lemma example_query_outcomes:
  "outcomes stringify parse (example_host ''executeQuery'' [john, john, john])
     example_db ''executeQuery'' [(''fetchSize'', JNum (Num ''50'')), (''maxRows'', JNum (Num ''10''))] 0
     [0, 1, 2] =
   [(0, 0, Inr [JObject [(''ID'', JNum (Num ''1''))], JObject [(''ID'', JNum (Num ''2''))]],
     [Execute 0 ''SELECT * FROM employees WHERE employee_id = :emp_id AND active = :active''
        [(''emp_id'', JNum (Num ''1001'')), (''active'', JNum (Num ''1''))]
        [(''autoCommit'', JBool True), (''fetchArraySize'', JNum (Num ''50'')),
         (''maxRows'', JNum (Num ''10'')), (''outFormat'', JNum (Num ''4002''))]]),
    (1, 1, Inl (Error ''ORA-00001: unique constraint violated''),
     [Execute 1 ''SELECT * FROM employees WHERE employee_id = :emp_id AND active = :active''
        [(''emp_id'', JNum (Num ''1001'')), (''active'', JNum (Num ''1''))]
        [(''autoCommit'', JBool True), (''fetchArraySize'', JNum (Num ''50'')),
         (''maxRows'', JNum (Num ''10'')), (''outFormat'', JNum (Num ''4002''))]]),
    (2, 2, Inr [JObject [(''ID'', JNum (Num ''1''))], JObject [(''ID'', JNum (Num ''2''))]],
     [Execute 2 ''SELECT * FROM employees WHERE employee_id = :emp_id AND active = :active''
        [(''emp_id'', JNum (Num ''1001'')), (''active'', JNum (Num ''1''))]
        [(''autoCommit'', JBool True), (''fetchArraySize'', JNum (Num ''50'')),
         (''maxRows'', JNum (Num ''10'')), (''outFormat'', JNum (Num ''4002''))]])]"
  by (simp add: run_defs)

section \<open>The insert statement (C3)\<close>








section \<open>The update statement (C4)\<close>





section \<open>The procedure call (C5)\<close>


lemma bind_entries_closed:
  "bind_entries stringify es binds =
     (case traverse (\<lambda>(key, value). convertToOracleType stringify value) es of
        Inl e \<Rightarrow> Inl e
      | Inr vs \<Rightarrow> Inr (fold (\<lambda>(k, v). obj_set k v) (zip (map fst es) vs) binds))"
proof (induction es arbitrary: binds)
  case Nil
  then show ?case by simp
next
  case (Cons a es)
  obtain key "value" where a: "a = (key, value)" by (cases a)
  show ?case using a by (simp add: Cons.IH split: sum.splits)
qed





section \<open>The loop and its events\<close>

lemma try_bind_Inr: "try_bind x f = Inr y \<Longrightarrow> \<exists>v. x = Inr v \<and> f v = Inr y"
  by (cases x) (simp_all add: try_bind_def)

lemma build_executeQuery_opts:
  "build_executeQuery stringify parse this options i = Inr (sql, binds, opts) \<Longrightarrow>
   opts = exec_options ''executeQuery'' options"
  unfolding build_executeQuery_def
  by (auto dest!: try_bind_Inr simp: exec_options_def option_reads)

lemma build_insert_opts:
  "build_insert stringify this options i = Inr (sql, binds, opts) \<Longrightarrow>
   opts = [(''autoCommit'', option_value options ''autoCommit'' (JBool True))]"
  unfolding build_insert_def Let_def
  by (auto dest!: try_bind_Inr simp: option_reads)

lemma build_update_opts:
  "build_update stringify this options i = Inr (sql, binds, opts) \<Longrightarrow>
   opts = [(''autoCommit'', option_value options ''autoCommit'' (JBool True))]"
  unfolding build_update_def Let_def
  by (auto dest!: try_bind_Inr simp: option_reads)

lemma build_delete_opts:
  "build_delete stringify this options i = Inr (sql, binds, opts) \<Longrightarrow>
   opts = [(''autoCommit'', option_value options ''autoCommit'' (JBool True))]"
  unfolding build_delete_def Let_def
  by (auto dest!: try_bind_Inr simp: option_reads)

lemma build_executeProcedure_opts:
  "build_executeProcedure stringify parse this options i = Inr (sql, binds, opts) \<Longrightarrow>
   opts = [(''autoCommit'', option_value options ''autoCommit'' (JBool True))]"
  unfolding build_executeProcedure_def
  by (auto dest!: try_bind_Inr simp: option_reads)

lemma run_events:
  "snd (snd (run oracledb connection i req k)) =
     (case req of Inl e \<Rightarrow> [] | Inr (sql, binds, opts) \<Rightarrow> [Execute i sql binds opts])"
  by (auto simp: run_def split: sum.splits prod.splits)

lemma run_output:
  "run oracledb connection i req k = (Inr out, connection', ev) \<Longrightarrow>
   \<exists>sql binds opts result.
     req = Inr (sql, binds, opts)
     \<and> connection_execute oracledb connection sql binds opts = (Inr result, connection')
     \<and> ev = [Execute i sql binds opts] \<and> out = k result"
  by (auto simp: run_def split: sum.splits prod.splits)

lemma run_event_cases:
  "ev \<in> set (snd (snd (run oracledb connection i req k))) \<Longrightarrow>
   \<exists>sql binds opts. req = Inr (sql, binds, opts) \<and> ev = Execute i sql binds opts"
  by (auto simp: run_events split: sum.splits)

lemma processItem_events:
  "ev \<in> set (snd (snd (processItem stringify parse this oracledb operation options connection i)))
   \<Longrightarrow> \<exists>sql binds. ev = Execute i sql binds (exec_options operation options)"
  unfolding processItem_def
  by (auto split: if_splits dest!: run_event_cases
        dest: build_executeQuery_opts build_insert_opts build_update_opts build_delete_opts
          build_executeProcedure_opts
        simp: exec_options_def)

lemma processItem_at_most_one:
  "length (snd (snd (processItem stringify parse this oracledb operation options connection i))) \<le> 1"
  unfolding processItem_def
  by (auto simp: run_events split: if_splits sum.splits)

lemma processItem_one_record:
  assumes "operation \<in> {''insert'', ''update'', ''delete'', ''executeProcedure''}"
    and "processItem stringify parse this oracledb operation options connection i
           = (Inr out, connection', ev)"
  shows "length out = 1"
  using assms unfolding processItem_def
  by (auto dest!: run_output simp: summary_def result_executeProcedure_def)

lemma processItem_query_output:
  assumes "processItem stringify parse this oracledb ''executeQuery'' options connection i
             = (Inr out, connection', ev)"
  shows "\<exists>sql binds opts result.
           build_executeQuery stringify parse this options i = Inr (sql, binds, opts)
           \<and> connection_execute oracledb connection sql binds opts = (Inr result, connection')
           \<and> ev = [Execute i sql binds opts]
           \<and> out = (if truthy (rows result) \<and> Array_isArray (rows result)
                    then array_elems (rows result)
                    else [JObject [(''success'', JBool True),
                                   (''rowsAffected'',
                                    nullish (rowsAffected result) (JNum (Num ''0'')))]])"
  using assms unfolding processItem_def
  by (auto dest!: run_output simp: result_executeQuery_def summary_def)

lemma processItem_unknown:
  assumes "operation \<notin> {''executeQuery'', ''insert'', ''update'', ''delete'', ''executeProcedure''}"
  shows "processItem stringify parse this oracledb operation options connection i
           = (Inr [], connection, [])"
  using assms by (simp add: processItem_def)

lemma processItems_unknown:
  assumes "operation \<notin> {''executeQuery'', ''insert'', ''update'', ''delete'', ''executeProcedure''}"
  shows "processItems stringify parse this oracledb operation options connection returnData ixs
           = (Inr returnData, connection, [])"
  by (induction ixs arbitrary: returnData) (simp_all add: processItem_unknown [OF assms])

lemma outcomes_indices:
  "map fst (outcomes stringify parse this oracledb operation options connection ixs) = ixs"
  by (induction ixs arbitrary: connection) (auto split: prod.splits)

lemma outcomes_length:
  "length (outcomes stringify parse this oracledb operation options connection ixs) = length ixs"
  using outcomes_indices [of stringify parse this oracledb operation options connection ixs]
  by (metis length_map)

lemma processItems_continue:
  assumes "continueOnFail this"
  shows "fst (processItems stringify parse this oracledb operation options connection returnData ixs) =
           Inr (returnData @ concat (map (emitted \<circ> outcome_result)
                  (outcomes stringify parse this oracledb operation options connection ixs)))
       \<and> snd (snd (processItems stringify parse this oracledb operation options connection
                     returnData ixs)) =
           concat (map outcome_events
             (outcomes stringify parse this oracledb operation options connection ixs))"
  using assms
proof (induction ixs arbitrary: connection returnData)
  case Nil
  then show ?case by simp
next
  case (Cons i ixs)
  obtain r c' ev where p:
    "processItem stringify parse this oracledb operation options connection i = (r, c', ev)"
    by (cases "processItem stringify parse this oracledb operation options connection i")
  show ?case
  proof (cases r)
    case (Inl error)
    obtain r2 c2 ev2 where q: "processItems stringify parse this oracledb operation options c'
        (returnData @ [error_record error]) ixs = (r2, c2, ev2)"
      by (cases "processItems stringify parse this oracledb operation options c'
        (returnData @ [error_record error]) ixs")
    from Cons.IH [OF Cons.prems, of c' "returnData @ [error_record error]"] q
    show ?thesis using p Inl Cons.prems by simp
  next
    case (Inr out)
    obtain r2 c2 ev2 where q: "processItems stringify parse this oracledb operation options c'
        (returnData @ out) ixs = (r2, c2, ev2)"
      by (cases "processItems stringify parse this oracledb operation options c'
        (returnData @ out) ixs")
    from Cons.IH [OF Cons.prems, of c' "returnData @ out"] q
    show ?thesis using p Inr by simp
  qed
qed

lemma processItems_abort:
  assumes "\<not> continueOnFail this"
  shows "fst (processItems stringify parse this oracledb operation options connection returnData ixs) =
           (case first_failure
                   (outcomes stringify parse this oracledb operation options connection ixs) of
              None \<Rightarrow> Inr (returnData @ concat (map (emitted \<circ> outcome_result)
                        (outcomes stringify parse this oracledb operation options connection ixs)))
            | Some error \<Rightarrow> Inl error)
       \<and> snd (snd (processItems stringify parse this oracledb operation options connection
                     returnData ixs)) =
           concat (map outcome_events (until_failure
             (outcomes stringify parse this oracledb operation options connection ixs)))"
  using assms
proof (induction ixs arbitrary: connection returnData)
  case Nil
  then show ?case by simp
next
  case (Cons i ixs)
  obtain r c' ev where p:
    "processItem stringify parse this oracledb operation options connection i = (r, c', ev)"
    by (cases "processItem stringify parse this oracledb operation options connection i")
  show ?case
  proof (cases r)
    case (Inl error)
    then show ?thesis using p Cons.prems by simp
  next
    case (Inr out)
    obtain r2 c2 ev2 where q: "processItems stringify parse this oracledb operation options c'
        (returnData @ out) ixs = (r2, c2, ev2)"
      by (cases "processItems stringify parse this oracledb operation options c'
        (returnData @ out) ixs")
    from Cons.IH [OF Cons.prems, of c' "returnData @ out"] q
    show ?thesis using p Inr by (simp split: option.splits)
  qed
qed

lemma processItems_events:
  "ev \<in> set (snd (snd (processItems stringify parse this oracledb operation options connection
                        returnData ixs)))
   \<Longrightarrow> \<exists>i sql binds. i \<in> set ixs \<and> ev = Execute i sql binds (exec_options operation options)"
proof (induction ixs arbitrary: connection returnData)
  case Nil
  then show ?case by simp
next
  case (Cons i ixs)
  obtain r c' ev1 where p:
    "processItem stringify parse this oracledb operation options connection i = (r, c', ev1)"
    by (cases "processItem stringify parse this oracledb operation options connection i")
  have one: "\<exists>sql binds. ev = Execute i sql binds (exec_options operation options)" if "ev \<in> set ev1"
    using that processItem_events [of ev stringify parse this oracledb operation options connection i] p
    by simp
  show ?case
  proof (cases r)
    case (Inl error)
    show ?thesis
    proof (cases "continueOnFail this")
      case True
      obtain r2 c2 ev2 where q: "processItems stringify parse this oracledb operation options c'
          (returnData @ [error_record error]) ixs = (r2, c2, ev2)"
        by (cases "processItems stringify parse this oracledb operation options c'
          (returnData @ [error_record error]) ixs")
      from Cons.prems p Inl True q have "ev \<in> set ev1 \<or> ev \<in> set ev2" by auto
      then show ?thesis
      proof
        assume "ev \<in> set ev1" then show ?thesis using one by auto
      next
        assume "ev \<in> set ev2"
        then show ?thesis
          using Cons.IH [of c' "returnData @ [error_record error]"] q by auto
      qed
    next
      case False
      with Cons.prems p Inl have "ev \<in> set ev1" by simp
      then show ?thesis using one by auto
    qed
  next
    case (Inr out)
    obtain r2 c2 ev2 where q: "processItems stringify parse this oracledb operation options c'
        (returnData @ out) ixs = (r2, c2, ev2)"
      by (cases "processItems stringify parse this oracledb operation options c'
        (returnData @ out) ixs")
    from Cons.prems p Inr q have "ev \<in> set ev1 \<or> ev \<in> set ev2" by auto
    then show ?thesis
    proof
      assume "ev \<in> set ev1" then show ?thesis using one by auto
    next
      assume "ev \<in> set ev2"
      then show ?thesis using Cons.IH [of c' "returnData @ out"] q by auto
    qed
  qed
qed

lemma processItems_no_Close:
  "Close \<notin> set (snd (snd (processItems stringify parse this oracledb operation options connection
      returnData ixs)))"
  using processItems_events [of Close stringify parse this oracledb operation options connection
      returnData ixs]
  by auto

lemma run_close_irrelevant:
  "run (oracledb\<lparr>connection_close := f\<rparr>) connection i req k = run oracledb connection i req k"
  by (cases req) (auto simp: run_def split: prod.splits)

lemma processItem_close_irrelevant:
  "processItem stringify parse this (oracledb\<lparr>connection_close := f\<rparr>) operation options
       connection i
     = processItem stringify parse this oracledb operation options connection i"
  by (simp add: processItem_def run_close_irrelevant)

lemma processItems_close_irrelevant:
  "processItems stringify parse this (oracledb\<lparr>connection_close := f\<rparr>) operation options
       connection returnData ixs
     = processItems stringify parse this oracledb operation options connection returnData ixs"
  by (induction ixs arbitrary: connection returnData)
     (simp_all add: processItem_close_irrelevant split: prod.splits sum.splits)

lemma outcomes_member:
  "(i, c, r, ev) \<in> set (outcomes stringify parse this oracledb operation options connection ixs)
   \<Longrightarrow> i \<in> set ixs
       \<and> (\<exists>c'. processItem stringify parse this oracledb operation options c i = (r, c', ev))"
proof (induction ixs arbitrary: connection)
  case Nil
  then show ?case by simp
next
  case (Cons j ixs)
  obtain r1 c1 ev1 where p:
    "processItem stringify parse this oracledb operation options connection j = (r1, c1, ev1)"
    by (cases "processItem stringify parse this oracledb operation options connection j")
  from Cons.prems p have
    "(i, c, r, ev) = (j, connection, r1, ev1)
     \<or> (i, c, r, ev) \<in> set (outcomes stringify parse this oracledb operation options c1 ixs)"
    by simp
  then show ?case
  proof
    assume "(i, c, r, ev) = (j, connection, r1, ev1)"
    with p show ?thesis by auto
  next
    assume "(i, c, r, ev) \<in> set (outcomes stringify parse this oracledb operation options c1 ixs)"
    from Cons.IH [OF this] show ?thesis by auto
  qed
qed

lemma outcome_events_executed:
  assumes "o' \<in> set (outcomes stringify parse this oracledb operation options connection ixs)"
    and "ev \<in> set (outcome_events o')"
  shows "executed_record ev \<noteq> None"
proof -
  obtain i c r evs where o': "o' = (i, c, r, evs)" by (cases o')
  from outcomes_member [OF assms(1) [unfolded o']] obtain c' where
    "processItem stringify parse this oracledb operation options c i = (r, c', evs)" by blast
  with assms(2) o' processItem_events [of ev stringify parse this oracledb operation options c i]
  show ?thesis by auto
qed

lemma filter_executed_outcomes:
  "filter (\<lambda>ev. executed_record ev \<noteq> None)
     (concat (map outcome_events
        (outcomes stringify parse this oracledb operation options connection ixs)))
   = concat (map outcome_events
        (outcomes stringify parse this oracledb operation options connection ixs))"
  by (rule filter_True) (auto dest: outcome_events_executed)

lemma until_failure_subset: "set (until_failure os) \<subseteq> set os"
  by (induction os rule: until_failure.induct) auto

lemma filter_executed_until_failure:
  "filter (\<lambda>ev. executed_record ev \<noteq> None)
     (concat (map outcome_events (until_failure
        (outcomes stringify parse this oracledb operation options connection ixs))))
   = concat (map outcome_events (until_failure
        (outcomes stringify parse this oracledb operation options connection ixs)))"
  by (rule filter_True) (use until_failure_subset in \<open>auto dest: outcome_events_executed\<close>)

lemma until_failure_filter_le:
  "length (filter P (concat (map outcome_events (until_failure os))))
     \<le> length (filter P (concat (map outcome_events os)))"
  by (induction os rule: until_failure.induct) auto

lemma processItem_filter_index:
  "length (filter (\<lambda>ev. executed_record ev = Some j)
            (snd (snd (processItem stringify parse this oracledb operation options connection i))))
     \<le> (if i = j then 1 else 0)"
proof (cases "i = j")
  case True
  have "length (filter (\<lambda>ev. executed_record ev = Some j)
            (snd (snd (processItem stringify parse this oracledb operation options connection i))))
        \<le> length (snd (snd (processItem stringify parse this oracledb operation options connection i)))"
    by (rule length_filter_le)
  also have "\<dots> \<le> 1" by (rule processItem_at_most_one)
  finally show ?thesis using True by simp
next
  case False
  have "filter (\<lambda>ev. executed_record ev = Some j)
          (snd (snd (processItem stringify parse this oracledb operation options connection i))) = []"
  proof -
    have "executed_record x = Some i"
      if "x \<in> set (snd (snd (processItem stringify parse this oracledb operation options
                               connection i)))"
      for x
      using processItem_events [OF that] by auto
    with False show ?thesis unfolding filter_empty_conv by auto
  qed
  then show ?thesis by simp
qed

lemma outcomes_index_count:
  "length (filter (\<lambda>ev. executed_record ev = Some j)
            (concat (map outcome_events
               (outcomes stringify parse this oracledb operation options connection ixs))))
     \<le> count_list ixs j"
proof (induction ixs arbitrary: connection)
  case Nil
  then show ?case by simp
next
  case (Cons i ixs)
  obtain r c' ev where p:
    "processItem stringify parse this oracledb operation options connection i = (r, c', ev)"
    by (cases "processItem stringify parse this oracledb operation options connection i")
  have "length (filter (\<lambda>ev. executed_record ev = Some j) ev) \<le> (if i = j then 1 else 0)"
    using processItem_filter_index [of j stringify parse this oracledb operation options connection i] p
    by simp
  with Cons.IH [of c'] p show ?case by auto
qed

lemma count_list_notin: "x \<notin> set xs \<Longrightarrow> count_list xs x = 0"
  by (induction xs) auto

lemma count_list_distinct: "distinct xs \<Longrightarrow> count_list xs x \<le> 1"
  by (induction xs) (auto simp: count_list_notin)

section \<open>execute as a whole\<close>

lemma execute_acquired:
  assumes "getCredentials this = Inr credentials"
    and "getNodeParameter_string this ''operation'' 0 = Inr operation"
    and "getNodeParameter_object this ''options'' 0 [] = Inr options"
    and "getConnection oracledb (connectionConfig credentials) = Inr connection"
  shows "execute stringify parse this oracledb =
     (case processItems stringify parse this oracledb operation options connection []
             [0..<length (getInputData this)] of
        (r, connection', ev) \<Rightarrow>
          (case r of Inl error \<Rightarrow> Inl (to_NodeOperationError error) | Inr returnData \<Rightarrow> Inr [returnData],
           init_events oracledb @ [GetConnection (connectionConfig credentials)] @ ev
             @ close_events oracledb connection'))"
  using assms by (simp add: execute_def Let_def split: prod.splits sum.splits)

lemma init_events_not_Execute: "Execute j sql binds opts \<notin> set (init_events oracledb)"
  by (auto simp: init_events_def split: option.splits)

lemma close_events_not_Execute: "Execute j sql binds opts \<notin> set (close_events oracledb c)"
  by (auto simp: close_events_def split: option.splits)

lemma execute_Execute_event:
  assumes "Execute j sql binds opts \<in> set (snd (execute stringify parse this oracledb))"
  shows "\<exists>operation options connection.
           getNodeParameter_string this ''operation'' 0 = Inr operation \<and>
           getNodeParameter_object this ''options'' 0 [] = Inr options \<and>
           Execute j sql binds opts \<in> set (snd (snd (processItems stringify parse this oracledb
             operation options connection [] [0..<length (getInputData this)])))"
proof (cases "getCredentials this")
  case (Inl e)
  with assms show ?thesis by (simp add: execute_def)
next
  case cred: (Inr credentials)
  show ?thesis
  proof (cases "getNodeParameter_string this ''operation'' 0")
    case (Inl e)
    with assms cred show ?thesis by (simp add: execute_def)
  next
    case op: (Inr operation)
    show ?thesis
    proof (cases "getNodeParameter_object this ''options'' 0 []")
      case (Inl e)
      with assms cred op show ?thesis by (simp add: execute_def)
    next
      case options: (Inr options)
      show ?thesis
      proof (cases "getConnection oracledb (connectionConfig credentials)")
        case (Inl e)
        with assms cred op options show ?thesis
          by (simp add: execute_def init_events_not_Execute)
      next
        case (Inr connection)
        obtain r c' ev where p:
          "processItems stringify parse this oracledb operation options connection []
            [0..<length (getInputData this)] = (r, c', ev)"
          by (cases "processItems stringify parse this oracledb operation options connection []
            [0..<length (getInputData this)]")
        from assms have "Execute j sql binds opts \<in> set ev"
          unfolding execute_acquired [OF cred op options Inr] p
          by (cases r) (simp_all add: init_events_not_Execute close_events_not_Execute)
        with p op options show ?thesis by (metis snd_conv)
      qed
    qed
  qed
qed

lemma init_events_no_Close: "Close \<notin> set (init_events oracledb)"
  by (auto simp: init_events_def split: option.splits)

lemma count_close_events: "count_list (close_events oracledb c) Close = 1"
  by (simp add: close_events_def split: option.splits)

lemma filter_init_events [simp]:
  "filter (\<lambda>ev. executed_record ev \<noteq> None) (init_events oracledb) = []"
  "filter (\<lambda>ev. executed_record ev = Some j) (init_events oracledb) = []"
  by (auto simp: init_events_def split: option.splits)

lemma filter_close_events [simp]:
  "filter (\<lambda>ev. executed_record ev \<noteq> None) (close_events oracledb c) = []"
  "filter (\<lambda>ev. executed_record ev = Some j) (close_events oracledb c) = []"
  by (auto simp: close_events_def split: option.splits)

section \<open>The options of an execution (C6)\<close>

text \<open>
  C6, as stated: every operation executes with \<open>autoCommit\<close>, the fetch size and \<open>maxRows\<close>.
  An insert, configured with a fetch size of 50 and 10 rows at most, executes with
  \<open>autoCommit\<close> alone.
\<close>

theorem execution_options_counterexample:
  "\<forall>parse.
     getNodeParameter_object (example_host ''insert'' [john, john, john]) ''options'' 0 [] =
       Inr [(''fetchSize'', JNum (Num ''50'')), (''maxRows'', JNum (Num ''10''))]
     \<and> snd (execute JSON_stringify parse (example_host ''insert'' [john, john, john]) example_db) =
        [InitOracleClient,
         ConsoleLog ''Oracle client initialization skipped: NJS-077: already initialized'',
         GetConnection \<lparr>ca_user = ''scott'', ca_password = ''tiger'',
                        connectString = ''localhost:1521/ORCL''\<rparr>,
         Execute 0 ''INSERT INTO employees (employee_id,first_name) VALUES (:val1,:val2)''
           [(''val1'', JNum (Num ''1001'')), (''val2'', JStr ''John'')] [(''autoCommit'', JBool True)],
         Execute 1 ''INSERT INTO employees (employee_id,first_name) VALUES (:val1,:val2)''
           [(''val1'', JNum (Num ''1001'')), (''val2'', JStr ''John'')] [(''autoCommit'', JBool True)],
         Execute 2 ''INSERT INTO employees (employee_id,first_name) VALUES (:val1,:val2)''
           [(''val1'', JNum (Num ''1001'')), (''val2'', JStr ''John'')] [(''autoCommit'', JBool True)],
         Close, ConsoleError (Error ''NJS-003: invalid connection'')]"
  by (simp add: example_insert_run example_options)

text \<open>
  C6, amended. Every statement that \<open>execute\<close> executes is executed with \<open>autoCommit\<close>
  (true unless set); only \<open>executeQuery\<close> also passes the fetch size (100 unless set),
  \<open>maxRows\<close> (0 unless set) and the object out-format.
\<close>

theorem execution_options:
  assumes "Execute j sql binds opts \<in> set (snd (execute stringify parse this oracledb))"
  shows "\<exists>operation options.
           getNodeParameter_string this ''operation'' 0 = Inr operation \<and>
           getNodeParameter_object this ''options'' 0 [] = Inr options \<and>
           opts = exec_options operation options"
proof -
  from execute_Execute_event [OF assms] obtain operation options connection where
    op: "getNodeParameter_string this ''operation'' 0 = Inr operation"
    and options: "getNodeParameter_object this ''options'' 0 [] = Inr options"
    and ev: "Execute j sql binds opts \<in> set (snd (snd (processItems stringify parse this oracledb
             operation options connection [] [0..<length (getInputData this)])))"
    by blast
  from processItems_events [OF ev] have "opts = exec_options operation options" by auto
  with op options show ?thesis by blast
qed

theorem execution_options_witness:
  "\<forall>parse.
     Execute 0 ''SELECT * FROM employees WHERE employee_id = :emp_id AND active = :active''
       [(''emp_id'', JNum (Num ''1001'')), (''active'', JNum (Num ''1''))]
       [(''autoCommit'', JBool True), (''fetchArraySize'', JNum (Num ''50'')),
        (''maxRows'', JNum (Num ''10'')), (''outFormat'', JNum (Num ''4002''))]
       \<in> set (snd (execute JSON_stringify parse (example_host ''executeQuery'' [john, john, john])
                     example_db))
     \<and> [(''autoCommit'', JBool True), (''fetchArraySize'', JNum (Num ''50'')),
         (''maxRows'', JNum (Num ''10'')), (''outFormat'', JNum (Num ''4002''))]
        = exec_options ''executeQuery''
            [(''fetchSize'', JNum (Num ''50'')), (''maxRows'', JNum (Num ''10''))]"
proof
  fix parse :: "string \<Rightarrow> thrown + jsval"
  have mem: "Execute 0 ''SELECT * FROM employees WHERE employee_id = :emp_id AND active = :active''
     [(''emp_id'', JNum (Num ''1001'')), (''active'', JNum (Num ''1''))]
     [(''autoCommit'', JBool True), (''fetchArraySize'', JNum (Num ''50'')),
      (''maxRows'', JNum (Num ''10'')), (''outFormat'', JNum (Num ''4002''))]
     \<in> set (snd (execute JSON_stringify parse (example_host ''executeQuery'' [john, john, john])
                   example_db))"
    by (simp add: example_query_run)
  from execution_options [OF mem] mem show
    "Execute 0 ''SELECT * FROM employees WHERE employee_id = :emp_id AND active = :active''
       [(''emp_id'', JNum (Num ''1001'')), (''active'', JNum (Num ''1''))]
       [(''autoCommit'', JBool True), (''fetchArraySize'', JNum (Num ''50'')),
        (''maxRows'', JNum (Num ''10'')), (''outFormat'', JNum (Num ''4002''))]
       \<in> set (snd (execute JSON_stringify parse (example_host ''executeQuery'' [john, john, john])
                     example_db))
     \<and> [(''autoCommit'', JBool True), (''fetchArraySize'', JNum (Num ''50'')),
         (''maxRows'', JNum (Num ''10'')), (''outFormat'', JNum (Num ''4002''))]
        = exec_options ''executeQuery''
            [(''fetchSize'', JNum (Num ''50'')), (''maxRows'', JNum (Num ''10''))]"
    by (simp add: example_operation example_options)
qed

section \<open>Closing the connection (C7)\<close>

text \<open>
  C7, as stated: the connection is closed exactly once on every exit path. When no
  connection can be made, \<open>execute\<close> throws and the close step is not run at all.
\<close>

theorem close_once_counterexample:
  "\<forall>parse.
     count_list (snd (execute JSON_stringify parse (example_host ''insert'' [john]) no_listener))
       Close = 0
     \<and> fst (execute JSON_stringify parse (example_host ''insert'' [john]) no_listener) =
         Inl (NodeOperationError ''ORA-12541: TNS:no listener'')"
  by (simp add: example_no_listener_run)

text \<open>
  C7, amended. The close step runs exactly once in every invocation that obtained a
  connection, however the loop ended, and not at all otherwise; what \<open>execute\<close> returns
  or throws is the same as with a driver whose close never fails; and the close is the last
  call to the driver, followed only by the logging of its failure, if it fails.
\<close>

theorem close_once_if_acquired:
  "count_list (snd (execute stringify parse this oracledb)) Close =
     (case getCredentials this of
        Inl e \<Rightarrow> 0
      | Inr credentials \<Rightarrow>
          (case getNodeParameter_string this ''operation'' 0 of
             Inl e \<Rightarrow> 0
           | Inr operation \<Rightarrow>
               (case getNodeParameter_object this ''options'' 0 [] of
                  Inl e \<Rightarrow> 0
                | Inr options \<Rightarrow>
                    (case getConnection oracledb (connectionConfig credentials) of
                       Inl e \<Rightarrow> 0
                     | Inr connection \<Rightarrow> 1))))
   \<and> fst (execute stringify parse this (oracledb\<lparr>connection_close := (\<lambda>connection. None)\<rparr>))
       = fst (execute stringify parse this oracledb)
   \<and> (count_list (snd (execute stringify parse this oracledb)) Close = 1 \<longrightarrow>
        (\<exists>before connection'.
           snd (execute stringify parse this oracledb) = before @ close_events oracledb connection'
           \<and> Close \<notin> set before))"
proof (cases "getCredentials this")
  case (Inl e)
  then show ?thesis by (simp add: execute_def)
next
  case cred: (Inr credentials)
  show ?thesis
  proof (cases "getNodeParameter_string this ''operation'' 0")
    case (Inl e)
    with cred show ?thesis by (simp add: execute_def)
  next
    case op: (Inr operation)
    show ?thesis
    proof (cases "getNodeParameter_object this ''options'' 0 []")
      case (Inl e)
      with cred op show ?thesis by (simp add: execute_def)
    next
      case options: (Inr options)
      show ?thesis
      proof (cases "getConnection oracledb (connectionConfig credentials)")
        case (Inl e)
        with cred op options show ?thesis
          by (simp add: execute_def count_list_notin init_events_no_Close)
      next
        case conn: (Inr connection)
        let ?o' = "oracledb\<lparr>connection_close := (\<lambda>connection. None)\<rparr>"
        obtain r c' ev where p:
          "processItems stringify parse this oracledb operation options connection []
            [0..<length (getInputData this)] = (r, c', ev)"
          by (cases "processItems stringify parse this oracledb operation options connection []
            [0..<length (getInputData this)]")
        have nc: "Close \<notin> set ev"
          using processItems_no_Close [of stringify parse this oracledb operation options
              connection "[]" "[0..<length (getInputData this)]"] p by simp
        have conn': "getConnection ?o' (connectionConfig credentials) = Inr connection"
          using conn by simp
        have count: "count_list (snd (execute stringify parse this oracledb)) Close = 1"
          unfolding execute_acquired [OF cred op options conn] p
          by (simp add: count_list_notin init_events_no_Close nc count_close_events)
        have same: "fst (execute stringify parse this ?o') = fst (execute stringify parse this oracledb)"
          unfolding execute_acquired [OF cred op options conn]
            execute_acquired [OF cred op options conn'] processItems_close_irrelevant p
          by simp
        have last: "\<exists>before connection'.
           snd (execute stringify parse this oracledb) = before @ close_events oracledb connection'
           \<and> Close \<notin> set before"
        proof (intro exI conjI)
          show "snd (execute stringify parse this oracledb)
                = (init_events oracledb @ [GetConnection (connectionConfig credentials)] @ ev)
                  @ close_events oracledb c'"
            unfolding execute_acquired [OF cred op options conn] p by simp
          show "Close \<notin> set (init_events oracledb @ [GetConnection (connectionConfig credentials)]
                  @ ev)"
            using nc init_events_no_Close by simp
        qed
        from count same last cred op options conn show ?thesis by simp
      qed
    qed
  qed
qed

theorem close_once_if_acquired_witness:
  "\<forall>parse.
     count_list (snd (execute JSON_stringify parse (example_host ''insert'' [john, john, john])
                        example_db)) Close = 1
     \<and> count_list (snd (execute JSON_stringify parse
            ((example_host ''insert'' [john, john, john])\<lparr>continueOnFail := False\<rparr>) example_db))
          Close = 1
     \<and> count_list (snd (execute JSON_stringify parse (example_host ''insert'' [john]) no_listener))
          Close = 0
     \<and> fst (execute JSON_stringify parse (example_host ''insert'' [john, john, john])
              (example_db\<lparr>connection_close := (\<lambda>connection. None)\<rparr>))
         = fst (execute JSON_stringify parse (example_host ''insert'' [john, john, john]) example_db)"
proof
  fix parse :: "string \<Rightarrow> thrown + jsval"
  show "count_list (snd (execute JSON_stringify parse (example_host ''insert'' [john, john, john])
                        example_db)) Close = 1
     \<and> count_list (snd (execute JSON_stringify parse
            ((example_host ''insert'' [john, john, john])\<lparr>continueOnFail := False\<rparr>) example_db))
          Close = 1
     \<and> count_list (snd (execute JSON_stringify parse (example_host ''insert'' [john]) no_listener))
          Close = 0
     \<and> fst (execute JSON_stringify parse (example_host ''insert'' [john, john, john])
              (example_db\<lparr>connection_close := (\<lambda>connection. None)\<rparr>))
         = fst (execute JSON_stringify parse (example_host ''insert'' [john, john, john]) example_db)"
    using close_once_if_acquired [where stringify = JSON_stringify and parse = parse
        and this = "example_host ''insert'' [john, john, john]" and oracledb = example_db]
      close_once_if_acquired [where stringify = JSON_stringify and parse = parse
        and this = "(example_host ''insert'' [john, john, john])\<lparr>continueOnFail := False\<rparr>"
        and oracledb = example_db]
      close_once_if_acquired [where stringify = JSON_stringify and parse = parse
        and this = "example_host ''insert'' [john]" and oracledb = no_listener]
    by (simp add: example_credentials example_operation example_options example_connection
          no_listener_def)
qed

section \<open>Failing records (C1)\<close>

text \<open>
  C1, as stated: with continue-past-failure enabled, n input records yield exactly n output
  entries. This fails for \<open>executeQuery\<close>, which emits one record per returned row: three
  input records, the second of which fails, give five entries.
\<close>

theorem record_failure_handling_counterexample:
  "\<forall>parse.
     length (getInputData (example_host ''executeQuery'' [john, john, john])) = 3
     \<and> continueOnFail (example_host ''executeQuery'' [john, john, john])
     \<and> fst (execute JSON_stringify parse (example_host ''executeQuery'' [john, john, john])
              example_db) =
         Inr [[JObject [(''ID'', JNum (Num ''1''))], JObject [(''ID'', JNum (Num ''2''))],
               JObject [(''error'', JStr ''ORA-00001: unique constraint violated'')],
               JObject [(''ID'', JNum (Num ''1''))], JObject [(''ID'', JNum (Num ''2''))]]]"
  by (simp add: example_query_run) (simp add: example_host_def)

text \<open>
  C1, amended. Once the connection is open, let \<open>os\<close> be the outcomes of the input records
  in input order: there is one per record, and each is what the body of the loop yields for
  that record on the connection as the records before it left it. With continue-past-failure
  enabled \<open>execute\<close> returns, in input order, for each record either the records it
  produced or one record \<open>{error: message}\<close> (with a fixed text when what was thrown is
  not an Error), and every record is processed. With it disabled, \<open>execute\<close> returns all
  the output only if no record fails, and otherwise throws a NodeOperationError made from the
  message of the first failure (from a fixed text when that is not an Error) and produces no
  output;
  the statements executed are those of the records up to that failure, none for a later
  record. No record has a statement executed twice. For insert, update, delete and
  executeProcedure every record contributes exactly one output entry, so that n records yield
  n entries; for \<open>executeQuery\<close> a record that succeeds contributes the records of the
  result that the driver returned for the statement of that record: the returned rows when
  there are rows, one summary record otherwise.
\<close>

theorem record_failure_handling:
  assumes "getCredentials this = Inr credentials"
    and "getNodeParameter_string this ''operation'' 0 = Inr operation"
    and "getNodeParameter_object this ''options'' 0 [] = Inr options"
    and "getConnection oracledb (connectionConfig credentials) = Inr connection"
  shows "(let os = outcomes stringify parse this oracledb operation options connection
                     [0..<length (getInputData this)]
          in map fst os = [0..<length (getInputData this)]
           \<and> (\<forall>(i, c, r, ev) \<in> set os.
                \<exists>c'. processItem stringify parse this oracledb operation options c i = (r, c', ev))
           \<and> fst (execute stringify parse this oracledb) =
               (if continueOnFail this then Inr [concat (map (emitted \<circ> outcome_result) os)]
                else (case first_failure os of
                        None \<Rightarrow> Inr [concat (map (emitted \<circ> outcome_result) os)]
                      | Some error \<Rightarrow> Inl (to_NodeOperationError error)))
           \<and> filter (\<lambda>ev. executed_record ev \<noteq> None) (snd (execute stringify parse this oracledb)) =
               concat (map outcome_events (if continueOnFail this then os else until_failure os))
           \<and> (\<forall>j. length (filter (\<lambda>ev. executed_record ev = Some j)
                              (snd (execute stringify parse this oracledb))) \<le> 1)
           \<and> (operation \<in> {''insert'', ''update'', ''delete'', ''executeProcedure''} \<longrightarrow>
                (\<forall>o' \<in> set os. length (emitted (outcome_result o')) = 1))
           \<and> (operation = ''executeQuery'' \<longrightarrow>
                (\<forall>(i, c, r, ev) \<in> set os. \<forall>out. r = Inr out \<longrightarrow>
                   (\<exists>sql binds opts result c'.
                      build_executeQuery stringify parse this options i = Inr (sql, binds, opts)
                      \<and> connection_execute oracledb c sql binds opts = (Inr result, c')
                      \<and> ev = [Execute i sql binds opts]
                      \<and> out = (if truthy (rows result) \<and> Array_isArray (rows result)
                               then array_elems (rows result)
                               else [JObject [(''success'', JBool True),
                                              (''rowsAffected'',
                                               nullish (rowsAffected result) (JNum (Num ''0'')))]])))))"
proof -
  define ixs where "ixs = [0..<length (getInputData this)]"
  define os where "os = outcomes stringify parse this oracledb operation options connection ixs"
  obtain r c' ev where p:
    "processItems stringify parse this oracledb operation options connection [] ixs = (r, c', ev)"
    by (cases "processItems stringify parse this oracledb operation options connection [] ixs")
  note ex = execute_acquired [OF assms, of stringify parse, folded ixs_def, unfolded p]
  have idx: "map fst os = ixs"
    by (simp add: os_def outcomes_indices)
  have each: "\<forall>(i, c, r, ev) \<in> set os.
                \<exists>c'. processItem stringify parse this oracledb operation options c i = (r, c', ev)"
    unfolding os_def by (auto dest: outcomes_member)
  have r: "r = (if continueOnFail this then Inr (concat (map (emitted \<circ> outcome_result) os))
                else (case first_failure os of
                        None \<Rightarrow> Inr (concat (map (emitted \<circ> outcome_result) os))
                      | Some error \<Rightarrow> Inl error))"
    and ev: "ev = concat (map outcome_events (if continueOnFail this then os else until_failure os))"
  proof -
    show "r = (if continueOnFail this then Inr (concat (map (emitted \<circ> outcome_result) os))
                else (case first_failure os of
                        None \<Rightarrow> Inr (concat (map (emitted \<circ> outcome_result) os))
                      | Some error \<Rightarrow> Inl error))"
    proof (cases "continueOnFail this")
      case True
      from processItems_continue [OF True, of stringify parse oracledb operation options
          connection "[]" ixs]
      show ?thesis using True p by (simp add: os_def)
    next
      case False
      from processItems_abort [OF False, of stringify parse oracledb operation options
          connection "[]" ixs]
      show ?thesis using False p by (simp add: os_def split: option.splits)
    qed
    show "ev = concat (map outcome_events (if continueOnFail this then os else until_failure os))"
    proof (cases "continueOnFail this")
      case True
      from processItems_continue [OF True, of stringify parse oracledb operation options
          connection "[]" ixs]
      show ?thesis using True p by (simp add: os_def)
    next
      case False
      from processItems_abort [OF False, of stringify parse oracledb operation options
          connection "[]" ixs]
      show ?thesis using False p by (simp add: os_def split: option.splits)
    qed
  qed
  have res: "fst (execute stringify parse this oracledb) =
               (if continueOnFail this then Inr [concat (map (emitted \<circ> outcome_result) os)]
                else (case first_failure os of
                        None \<Rightarrow> Inr [concat (map (emitted \<circ> outcome_result) os)]
                      | Some error \<Rightarrow> Inl (to_NodeOperationError error)))"
    unfolding ex r by (simp split: option.splits)
  have fil: "filter (\<lambda>ev. executed_record ev \<noteq> None) ev = ev"
    unfolding ev os_def
    by (cases "continueOnFail this")
       (simp_all only: if_True if_False filter_executed_outcomes filter_executed_until_failure)
  have evs: "filter (\<lambda>ev. executed_record ev \<noteq> None) (snd (execute stringify parse this oracledb)) =
               concat (map outcome_events (if continueOnFail this then os else until_failure os))"
  proof -
    have "filter (\<lambda>ev. executed_record ev \<noteq> None) (snd (execute stringify parse this oracledb))
          = filter (\<lambda>ev. executed_record ev \<noteq> None) ev"
      unfolding ex by (simp del: not_None_eq)
    also have "\<dots> = ev" by (rule fil)
    also have "\<dots> = concat (map outcome_events (if continueOnFail this then os else until_failure os))"
      by (rule ev)
    finally show ?thesis .
  qed
  have once: "length (filter (\<lambda>ev. executed_record ev = Some j)
                              (snd (execute stringify parse this oracledb))) \<le> 1" for j
  proof -
    have "length (filter (\<lambda>ev. executed_record ev = Some j) ev)
            \<le> length (filter (\<lambda>ev. executed_record ev = Some j) (concat (map outcome_events os)))"
      unfolding ev using until_failure_filter_le [of _ os] by simp
    also have "\<dots> \<le> count_list ixs j"
      unfolding os_def by (rule outcomes_index_count)
    also have "\<dots> \<le> 1"
      by (rule count_list_distinct) (simp add: ixs_def)
    finally show ?thesis unfolding ex by simp
  qed
  have one: "length (emitted (outcome_result o')) = 1"
    if "operation \<in> {''insert'', ''update'', ''delete'', ''executeProcedure''}" "o' \<in> set os" for o'
  proof -
    obtain i c res evs where o': "o' = (i, c, res, evs)" by (cases o')
    from that(2) each o' obtain c1 where
      pi: "processItem stringify parse this oracledb operation options c i = (res, c1, evs)"
      by auto
    show ?thesis
    proof (cases res)
      case (Inl error)
      then show ?thesis using o' by simp
    next
      case (Inr out)
      from processItem_one_record [OF that(1) pi [unfolded Inr]] Inr o' show ?thesis by simp
    qed
  qed
  have query: "\<exists>sql binds opts result c'.
                 build_executeQuery stringify parse this options i = Inr (sql, binds, opts)
                 \<and> connection_execute oracledb c sql binds opts = (Inr result, c')
                 \<and> evs = [Execute i sql binds opts]
                 \<and> out = (if truthy (rows result) \<and> Array_isArray (rows result)
                          then array_elems (rows result)
                          else [JObject [(''success'', JBool True),
                                         (''rowsAffected'',
                                          nullish (rowsAffected result) (JNum (Num ''0'')))]])"
    if "operation = ''executeQuery''" "(i, c, Inr out, evs) \<in> set os" for i c out evs
  proof -
    from that(2) each obtain c1 where
      "processItem stringify parse this oracledb operation options c i = (Inr out, c1, evs)"
      by auto
    with that(1) have
      "processItem stringify parse this oracledb ''executeQuery'' options c i = (Inr out, c1, evs)"
      by simp
    from processItem_query_output [OF this] show ?thesis by blast
  qed
  have "map fst os = ixs
      \<and> (\<forall>(i, c, r, ev) \<in> set os.
                \<exists>c'. processItem stringify parse this oracledb operation options c i = (r, c', ev))
      \<and> fst (execute stringify parse this oracledb) =
               (if continueOnFail this then Inr [concat (map (emitted \<circ> outcome_result) os)]
                else (case first_failure os of
                        None \<Rightarrow> Inr [concat (map (emitted \<circ> outcome_result) os)]
                      | Some error \<Rightarrow> Inl (to_NodeOperationError error)))
      \<and> filter (\<lambda>ev. executed_record ev \<noteq> None) (snd (execute stringify parse this oracledb)) =
               concat (map outcome_events (if continueOnFail this then os else until_failure os))
      \<and> (\<forall>j. length (filter (\<lambda>ev. executed_record ev = Some j)
                              (snd (execute stringify parse this oracledb))) \<le> 1)
      \<and> (operation \<in> {''insert'', ''update'', ''delete'', ''executeProcedure''} \<longrightarrow>
                (\<forall>o' \<in> set os. length (emitted (outcome_result o')) = 1))
      \<and> (operation = ''executeQuery'' \<longrightarrow>
                (\<forall>(i, c, r, ev) \<in> set os. \<forall>out. r = Inr out \<longrightarrow>
                   (\<exists>sql binds opts result c'.
                      build_executeQuery stringify parse this options i = Inr (sql, binds, opts)
                      \<and> connection_execute oracledb c sql binds opts = (Inr result, c')
                      \<and> ev = [Execute i sql binds opts]
                      \<and> out = (if truthy (rows result) \<and> Array_isArray (rows result)
                               then array_elems (rows result)
                               else [JObject [(''success'', JBool True),
                                              (''rowsAffected'',
                                               nullish (rowsAffected result) (JNum (Num ''0'')))]]))))"
  proof (intro conjI)
    show "\<forall>j. length (filter (\<lambda>ev. executed_record ev = Some j)
                              (snd (execute stringify parse this oracledb))) \<le> 1"
      using once by blast
    show "operation \<in> {''insert'', ''update'', ''delete'', ''executeProcedure''} \<longrightarrow>
                (\<forall>o' \<in> set os. length (emitted (outcome_result o')) = 1)"
      using one by blast
    show "operation = ''executeQuery'' \<longrightarrow>
                (\<forall>(i, c, r, ev) \<in> set os. \<forall>out. r = Inr out \<longrightarrow>
                   (\<exists>sql binds opts result c'.
                      build_executeQuery stringify parse this options i = Inr (sql, binds, opts)
                      \<and> connection_execute oracledb c sql binds opts = (Inr result, c')
                      \<and> ev = [Execute i sql binds opts]
                      \<and> out = (if truthy (rows result) \<and> Array_isArray (rows result)
                               then array_elems (rows result)
                               else [JObject [(''success'', JBool True),
                                              (''rowsAffected'',
                                               nullish (rowsAffected result) (JNum (Num ''0'')))]])))"
    proof (intro impI ballI)
      fix o'
      assume op: "operation = ''executeQuery''" and mem: "o' \<in> set os"
      obtain i c res evs where o': "o' = (i, c, res, evs)" by (cases o')
      show "case o' of (i, c, r, ev) \<Rightarrow> \<forall>out. r = Inr out \<longrightarrow>
                   (\<exists>sql binds opts result c'.
                      build_executeQuery stringify parse this options i = Inr (sql, binds, opts)
                      \<and> connection_execute oracledb c sql binds opts = (Inr result, c')
                      \<and> ev = [Execute i sql binds opts]
                      \<and> out = (if truthy (rows result) \<and> Array_isArray (rows result)
                               then array_elems (rows result)
                               else [JObject [(''success'', JBool True),
                                              (''rowsAffected'',
                                               nullish (rowsAffected result) (JNum (Num ''0'')))]]))"
        unfolding o' prod.case
      proof (intro allI impI)
        fix out
        assume "res = Inr out"
        with mem o' have "(i, c, Inr out, evs) \<in> set os" by simp
        from query [OF op this] show "\<exists>sql binds opts result c'.
                      build_executeQuery stringify parse this options i = Inr (sql, binds, opts)
                      \<and> connection_execute oracledb c sql binds opts = (Inr result, c')
                      \<and> evs = [Execute i sql binds opts]
                      \<and> out = (if truthy (rows result) \<and> Array_isArray (rows result)
                               then array_elems (rows result)
                               else [JObject [(''success'', JBool True),
                                              (''rowsAffected'',
                                               nullish (rowsAffected result) (JNum (Num ''0'')))]])" .
      qed
    qed
  qed (fact idx each res evs)+
  then show ?thesis
    unfolding Let_def os_def ixs_def .
qed

theorem record_failure_handling_witness:
  "\<forall>parse.
     fst (execute JSON_stringify parse (example_host ''insert'' [john, john, john]) example_db) =
       Inr [[JObject [(''success'', JBool True), (''rowsAffected'', JNum (Num ''1''))],
             JObject [(''error'', JStr ''ORA-00001: unique constraint violated'')],
             JObject [(''success'', JBool True), (''rowsAffected'', JNum (Num ''1''))]]]
     \<and> fst (execute JSON_stringify parse
              ((example_host ''insert'' [john, john, john])\<lparr>continueOnFail := False\<rparr>) example_db) =
       Inl (NodeOperationError ''ORA-00001: unique constraint violated'')
     \<and> filter (\<lambda>ev. executed_record ev \<noteq> None)
          (snd (execute JSON_stringify parse
                  ((example_host ''insert'' [john, john, john])\<lparr>continueOnFail := False\<rparr>)
                  example_db)) =
       [Execute 0 ''INSERT INTO employees (employee_id,first_name) VALUES (:val1,:val2)''
          [(''val1'', JNum (Num ''1001'')), (''val2'', JStr ''John'')] [(''autoCommit'', JBool True)],
        Execute 1 ''INSERT INTO employees (employee_id,first_name) VALUES (:val1,:val2)''
          [(''val1'', JNum (Num ''1001'')), (''val2'', JStr ''John'')] [(''autoCommit'', JBool True)]]
     \<and> fst (execute JSON_stringify parse (example_host ''executeQuery'' [john, john, john])
              example_db) =
       Inr [[JObject [(''ID'', JNum (Num ''1''))], JObject [(''ID'', JNum (Num ''2''))],
             JObject [(''error'', JStr ''ORA-00001: unique constraint violated'')],
             JObject [(''ID'', JNum (Num ''1''))], JObject [(''ID'', JNum (Num ''2''))]]]"
proof
  fix parse :: "string \<Rightarrow> thrown + jsval"
  let ?h = "\<lambda>b. (example_host ''insert'' [john, john, john])\<lparr>continueOnFail := b\<rparr>"
  have items: "[0..<length (getInputData (?h b))] = [0, 1, 2]" for b
    by (simp add: example_host_def upt_rec)
  have same: "?h True = example_host ''insert'' [john, john, john]"
    by (simp add: example_host_def)
  have T: "fst (execute JSON_stringify parse (?h b) example_db) =
       (if b then
          Inr [[JObject [(''success'', JBool True), (''rowsAffected'', JNum (Num ''1''))],
                JObject [(''error'', JStr ''ORA-00001: unique constraint violated'')],
                JObject [(''success'', JBool True), (''rowsAffected'', JNum (Num ''1''))]]]
        else Inl (NodeOperationError ''ORA-00001: unique constraint violated''))
     \<and> filter (\<lambda>ev. executed_record ev \<noteq> None) (snd (execute JSON_stringify parse (?h b) example_db)) =
       Execute 0 ''INSERT INTO employees (employee_id,first_name) VALUES (:val1,:val2)''
         [(''val1'', JNum (Num ''1001'')), (''val2'', JStr ''John'')] [(''autoCommit'', JBool True)] #
       Execute 1 ''INSERT INTO employees (employee_id,first_name) VALUES (:val1,:val2)''
         [(''val1'', JNum (Num ''1001'')), (''val2'', JStr ''John'')] [(''autoCommit'', JBool True)] #
       (if b then
          [Execute 2 ''INSERT INTO employees (employee_id,first_name) VALUES (:val1,:val2)''
            [(''val1'', JNum (Num ''1001'')), (''val2'', JStr ''John'')] [(''autoCommit'', JBool True)]]
        else [])" for b
  proof -
    note R = record_failure_handling [where stringify = JSON_stringify and parse = parse
        and this = "?h b" and oracledb = example_db, OF example_credentials(2)
        example_operation(2) example_options(2) example_connection,
        unfolded Let_def items example_insert_outcomes]
    from R [THEN conjunct2, THEN conjunct2, THEN conjunct1]
      R [THEN conjunct2, THEN conjunct2, THEN conjunct2, THEN conjunct1]
    show ?thesis
      by (simp add: error_record_def to_NodeOperationError_def del: not_None_eq)
  qed
  have items': "[0..<length (getInputData (example_host ''executeQuery'' [john, john, john]))]
                = [0, 1, 2]"
    by (simp add: example_host_def upt_rec)
  have c: "continueOnFail (example_host ''executeQuery'' [john, john, john])"
    by (simp add: example_host_def)
  note Q = record_failure_handling [where stringify = JSON_stringify and parse = parse
      and this = "example_host ''executeQuery'' [john, john, john]" and oracledb = example_db,
      OF example_credentials(1) example_operation(1) example_options(1) example_connection,
      unfolded Let_def items' example_query_outcomes]
  from Q [THEN conjunct2, THEN conjunct2, THEN conjunct1] c
  have U: "fst (execute JSON_stringify parse (example_host ''executeQuery'' [john, john, john])
              example_db) =
       Inr [[JObject [(''ID'', JNum (Num ''1''))], JObject [(''ID'', JNum (Num ''2''))],
             JObject [(''error'', JStr ''ORA-00001: unique constraint violated'')],
             JObject [(''ID'', JNum (Num ''1''))], JObject [(''ID'', JNum (Num ''2''))]]]"
    by (simp add: error_record_def)
  from T [of True] T [of False] U show
    "fst (execute JSON_stringify parse (example_host ''insert'' [john, john, john]) example_db) =
       Inr [[JObject [(''success'', JBool True), (''rowsAffected'', JNum (Num ''1''))],
             JObject [(''error'', JStr ''ORA-00001: unique constraint violated'')],
             JObject [(''success'', JBool True), (''rowsAffected'', JNum (Num ''1''))]]]
     \<and> fst (execute JSON_stringify parse
              ((example_host ''insert'' [john, john, john])\<lparr>continueOnFail := False\<rparr>) example_db) =
       Inl (NodeOperationError ''ORA-00001: unique constraint violated'')
     \<and> filter (\<lambda>ev. executed_record ev \<noteq> None)
          (snd (execute JSON_stringify parse
                  ((example_host ''insert'' [john, john, john])\<lparr>continueOnFail := False\<rparr>)
                  example_db)) =
       [Execute 0 ''INSERT INTO employees (employee_id,first_name) VALUES (:val1,:val2)''
          [(''val1'', JNum (Num ''1001'')), (''val2'', JStr ''John'')] [(''autoCommit'', JBool True)],
        Execute 1 ''INSERT INTO employees (employee_id,first_name) VALUES (:val1,:val2)''
          [(''val1'', JNum (Num ''1001'')), (''val2'', JStr ''John'')] [(''autoCommit'', JBool True)]]
     \<and> fst (execute JSON_stringify parse (example_host ''executeQuery'' [john, john, john])
              example_db) =
       Inr [[JObject [(''ID'', JNum (Num ''1''))], JObject [(''ID'', JNum (Num ''2''))],
             JObject [(''error'', JStr ''ORA-00001: unique constraint violated'')],
             JObject [(''ID'', JNum (Num ''1''))], JObject [(''ID'', JNum (Num ''2''))]]]"
    unfolding same by simp
qed

section \<open>An unknown operation (C10)\<close>

text \<open>
  C10, as stated: with an unknown operation \<open>execute\<close> raises no error. When no connection
  can be made it throws, whatever the operation.
\<close>

theorem unknown_operation_counterexample:
  "\<forall>parse.
     fst (execute JSON_stringify parse (example_host ''merge'' [john, john]) no_listener) =
       Inl (NodeOperationError ''ORA-12541: TNS:no listener'')"
  by (simp add: example_merge_no_listener_run)

text \<open>
  C10, amended. Once the credentials, the two parameters and the connection have been
  obtained, an operation that is none of the five makes \<open>execute\<close> return one empty list of
  output records, for any number of input records, and execute no statement: the events are
  those of the initialization, the connection and the close.
\<close>

theorem unknown_operation_is_ignored:
  assumes "getCredentials this = Inr credentials"
    and "getNodeParameter_string this ''operation'' 0 = Inr operation"
    and "getNodeParameter_object this ''options'' 0 [] = Inr options"
    and "getConnection oracledb (connectionConfig credentials) = Inr connection"
    and "operation \<notin> {''executeQuery'', ''insert'', ''update'', ''delete'', ''executeProcedure''}"
  shows "execute stringify parse this oracledb =
           (Inr [[]],
            init_events oracledb @ [GetConnection (connectionConfig credentials)]
              @ close_events oracledb connection)"
  unfolding execute_acquired [OF assms(1-4)] processItems_unknown [OF assms(5)]
  by simp

theorem unknown_operation_is_ignored_witness:
  "\<forall>parse.
     execute JSON_stringify parse (example_host ''merge'' [john, john]) example_db =
       (Inr [[]],
        [InitOracleClient,
         ConsoleLog ''Oracle client initialization skipped: NJS-077: already initialized'',
         GetConnection \<lparr>ca_user = ''scott'', ca_password = ''tiger'',
                        connectString = ''localhost:1521/ORCL''\<rparr>,
         Close, ConsoleError (Error ''NJS-003: invalid connection'')])"
proof
  fix parse :: "string \<Rightarrow> thrown + jsval"
  have "''merge'' \<notin> {''executeQuery'', ''insert'', ''update'', ''delete'', ''executeProcedure''}"
    by simp
  from unknown_operation_is_ignored [where stringify = JSON_stringify and parse = parse
      and this = "example_host ''merge'' [john, john]" and oracledb = example_db,
      OF example_credentials(1) example_operation(1) example_options(1) example_connection this]
  show "execute JSON_stringify parse (example_host ''merge'' [john, john]) example_db =
       (Inr [[]],
        [InitOracleClient,
         ConsoleLog ''Oracle client initialization skipped: NJS-077: already initialized'',
         GetConnection \<lparr>ca_user = ''scott'', ca_password = ''tiger'',
                        connectString = ''localhost:1521/ORCL''\<rparr>,
         Close, ConsoleError (Error ''NJS-003: invalid connection'')])"
    by (simp add: init_events_def close_events_def connectionConfig_def example_db_def)
qed

end
